theory Spec2Isabelle
  imports Main "HOL-Library.Word"
begin

section \<open>DriveFileSystem\<close>

text \<open>
  The file system runs on one thread and talks to its collaborators (the resource
  metadata, the cache, the scheduler, the change list loader, the blocking pool)
  through callbacks. The embedding keeps one HOL function per C++ function, with
  the C++ name. A call to a collaborator is recorded as a \<open>call\<close> in a trace, and
  the arguments with which the collaborator later runs the bound callback are
  parameters of the model (a reply). A function that runs the caller's callback
  returns the arguments it runs it with; the function that bound the callback
  applies it to them. A result \<open>None\<close> stands for a run that dereferences a null
  \<open>scoped_ptr\<close> and so never reaches the callback.
\<close>

subsection \<open>Data\<close>

type_synonym FilePath = string

text \<open>A \<open>GURL\<close> is represented by its spec; \<open>is_empty()\<close> is the empty spec.\<close>

type_synonym GURL = string

text \<open>
  The values of \<open>DriveFileError\<close> that the file names. The enum is declared in a
  header outside the sources; its remaining values are \<open>DRIVE_FILE_ERROR_OTHER\<close>.
\<close>

datatype DriveFileError =
    DRIVE_FILE_OK
  | DRIVE_FILE_ERROR_FAILED
  | DRIVE_FILE_ERROR_IN_USE
  | DRIVE_FILE_ERROR_EXISTS
  | DRIVE_FILE_ERROR_NOT_FOUND
  | DRIVE_FILE_ERROR_ACCESS_DENIED
  | DRIVE_FILE_ERROR_NO_SPACE
  | DRIVE_FILE_ERROR_NOT_A_DIRECTORY
  | DRIVE_FILE_ERROR_INVALID_OPERATION
  | DRIVE_FILE_ERROR_OTHER nat

text \<open>
  \<open>google_apis::GDataErrorCode\<close>: the file names \<open>GDATA_CANCELLED\<close> only; every other
  status is \<open>GDATA_CODE\<close> with its number.
\<close>

datatype GDataErrorCode = GDATA_CANCELLED | GDATA_CODE int

datatype DriveFileType = REGULAR_FILE | HOSTED_DOCUMENT

datatype ContextType = USER_INITIATED | BACKGROUND

datatype DriveClientContext = DriveClientContext ContextType

datatype CacheSubDirectoryType = CACHE_TYPE_TMP_DOWNLOADS | CACHE_TYPE_TMP_DOCUMENTS

datatype FileOperationType = FILE_OPERATION_MOVE | FILE_OPERATION_COPY

record PlatformFileInfoProto =
  file_size :: int
  is_directory :: bool
  is_symbolic_link :: bool
  last_modified :: int
  last_accessed :: int
  creation_time :: int

record DriveFileSpecificInfo =
  content_mime_type :: string
  file_md5 :: string
  is_hosted_document :: bool
  alternate_url :: string

record DriveEntryProto =
  resource_id :: string
  file_info :: PlatformFileInfoProto
  file_specific_info_field :: "DriveFileSpecificInfo option"
  directory_changestamp :: int

text \<open>
  The protocol buffer accessors: \<open>has_file_specific_info()\<close> tells whether the
  optional message is set, and \<open>file_specific_info()\<close> returns the default message
  (empty strings, \<open>false\<close>) when it is not.
\<close>

definition has_file_specific_info :: "DriveEntryProto \<Rightarrow> bool" where
  "has_file_specific_info e = (file_specific_info_field e \<noteq> None)"

definition default_file_specific_info :: DriveFileSpecificInfo where
  "default_file_specific_info =
     \<lparr>content_mime_type = [], file_md5 = [], is_hosted_document = False, alternate_url = []\<rparr>"

definition file_specific_info :: "DriveEntryProto \<Rightarrow> DriveFileSpecificInfo" where
  "file_specific_info e =
     (case file_specific_info_field e of None \<Rightarrow> default_file_specific_info | Some i \<Rightarrow> i)"

record DriveCacheEntry =
  is_present :: bool
  is_pinned :: bool
  is_dirty :: bool

record ResourceEntry =
  entry_resource_id :: string
  download_url :: GURL

record PlatformFileInfo =
  info_size :: int
  info_is_directory :: bool
  info_is_symbolic_link :: bool
  info_last_modified :: int
  info_last_accessed :: int
  info_creation_time :: int

text \<open>
  Functions that the file calls and that are defined outside the sources; they are
  parameters of the model.
\<close>

record Helpers =
  GDataToDriveFileError :: "GDataErrorCode \<Rightarrow> DriveFileError"
  ConvertResourceEntryToDriveEntryProto :: "ResourceEntry \<Rightarrow> DriveEntryProto"
  ConvertPlatformFileInfoToProto :: "PlatformFileInfo \<Rightarrow> PlatformFileInfoProto"
  GetCacheDirectoryPath :: "CacheSubDirectoryType \<Rightarrow> FilePath"
  DirName :: "FilePath \<Rightarrow> FilePath"
  GURL_spec :: "string \<Rightarrow> GURL"

text \<open>The calls to collaborators, with the arguments the file passes.\<close>

datatype call =
    MetadataGetEntryInfoByPath FilePath
  | MetadataGetEntryInfoByResourceId string
  | MetadataRefreshEntry DriveEntryProto
  | LoaderLoadIfNeeded "(string \<times> int) option"
  | OperationsTransferRegularFile FilePath FilePath
  | CacheGetFile string string
  | CacheGetCacheEntry string string
  | CacheMarkDirty string string
  | CacheCommitDirty string string
  | CacheUnpin string string
  | CacheStore string string FilePath FileOperationType
  | CacheFreeDiskSpaceIfNeededFor int
  | SchedulerGetResourceEntry string DriveClientContext
  | SchedulerDownloadFile FilePath FilePath GURL DriveClientContext
  | CreateTemporaryFileInDir FilePath
  | WriteFile FilePath string int
  | DeleteFile FilePath bool
  | GetFileInfo FilePath
  | ObserverOnDirectoryChanged FilePath

text \<open>\<open>then_calls cs r\<close>: the calls \<open>cs\<close> are made, then the run \<open>r\<close> follows.\<close>

definition then_calls :: "call list \<Rightarrow> call list \<times> 'a \<Rightarrow> call list \<times> 'a" where
  "then_calls cs r = (cs @ fst r, snd r)"

text \<open>The calls that reach the remote service (through the scheduler or the operations).\<close>

fun is_remote_call :: "call \<Rightarrow> bool" where
  "is_remote_call (SchedulerGetResourceEntry _ _) = True"
| "is_remote_call (SchedulerDownloadFile _ _ _ _) = True"
| "is_remote_call (OperationsTransferRegularFile _ _) = True"
| "is_remote_call _ = False"

text \<open>The cache operations that change the dirty or pinned state of a cache entry.\<close>

fun is_dirty_pin_call :: "call \<Rightarrow> bool" where
  "is_dirty_pin_call (CacheMarkDirty _ _) = True"
| "is_dirty_pin_call (CacheCommitDirty _ _) = True"
| "is_dirty_pin_call (CacheUnpin _ _) = True"
| "is_dirty_pin_call _ = False"

subsection \<open>The state of the file system\<close>

definition kMimeTypeJson :: string where
  "kMimeTypeJson = ''application/json''"

definition kEmptyFilePath :: FilePath where
  "kEmptyFilePath = ''/dev/null''"

definition kFastPollingIntervalInSec :: int where
  "kFastPollingIntervalInSec = 60"

definition kSlowPollingIntervalInSec :: int where
  "kSlowPollingIntervalInSec = 300"

text \<open>
  \<open>base::Timer\<close>, repeating: while it runs it fires every \<open>delay\<close> seconds.
  \<open>Start\<close> sets the delay and runs the timer, \<open>Stop\<close> stops it.
\<close>

record Timer =
  IsRunning :: bool
  delay :: int

definition Timer_Start :: "Timer \<Rightarrow> int \<Rightarrow> Timer" where
  "Timer_Start t d = t\<lparr>IsRunning := True, delay := d\<rparr>"

definition Timer_Stop :: "Timer \<Rightarrow> Timer" where
  "Timer_Stop t = t\<lparr>IsRunning := False\<rparr>"

record DriveFileSystem =
  open_files :: "FilePath set"
  update_timer :: Timer
  polling_interval_sec :: int
  push_notification_enabled :: bool

text \<open>The constructor's initialiser list.\<close>

definition DriveFileSystem_new :: DriveFileSystem where
  "DriveFileSystem_new =
     \<lparr>open_files = {},
      update_timer = \<lparr>IsRunning = False, delay = 0\<rparr>,
      polling_interval_sec = kFastPollingIntervalInSec,
      push_notification_enabled = False\<rparr>"

text \<open>
  \<open>StartPolling\<close> asserts with \<open>DCHECK\<close> that the timer is not running; the
  assertion is the predicate \<open>StartPolling_DCHECK\<close>, and the function is what the
  body does.
\<close>

definition StartPolling_DCHECK :: "DriveFileSystem \<Rightarrow> bool" where
  "StartPolling_DCHECK s = (\<not> IsRunning (update_timer s))"

definition StartPolling :: "DriveFileSystem \<Rightarrow> DriveFileSystem" where
  "StartPolling s = s\<lparr>update_timer := Timer_Start (update_timer s) (polling_interval_sec s)\<rparr>"

definition StopPolling :: "DriveFileSystem \<Rightarrow> DriveFileSystem" where
  "StopPolling s =
     (if IsRunning (update_timer s) then s\<lparr>update_timer := Timer_Stop (update_timer s)\<rparr> else s)"

definition SetPushNotificationEnabled :: "DriveFileSystem \<Rightarrow> bool \<Rightarrow> DriveFileSystem" where
  "SetPushNotificationEnabled s enabled =
     s\<lparr>push_notification_enabled := enabled,
       polling_interval_sec :=
         (if enabled then kSlowPollingIntervalInSec else kFastPollingIntervalInSec)\<rparr>"

subsection \<open>CreateFile\<close>

text \<open>
  \<open>r_transfer\<close> is the error with which \<open>TransferRegularFile\<close> runs the callback it
  is given.
\<close>

definition OnGetEntryInfoForCreateFile ::
  "FilePath \<Rightarrow> bool \<Rightarrow> DriveFileError \<Rightarrow> DriveFileError \<Rightarrow> DriveEntryProto option
     \<Rightarrow> call list \<times> DriveFileError option" where
  "OnGetEntryInfoForCreateFile file_path is_exclusive r_transfer result entry_proto =
     (if result \<noteq> DRIVE_FILE_ERROR_NOT_FOUND \<and> result \<noteq> DRIVE_FILE_OK then ([], Some result)
      else if result = DRIVE_FILE_OK then
        (case entry_proto of
           None \<Rightarrow> ([], None)
         | Some e \<Rightarrow>
             if is_exclusive \<or> is_directory (file_info e)
                \<or> is_hosted_document (file_specific_info e)
             then ([], Some DRIVE_FILE_ERROR_EXISTS)
             else ([], Some DRIVE_FILE_OK))
      else ([OperationsTransferRegularFile kEmptyFilePath file_path], Some r_transfer))"

definition CreateFile ::
  "FilePath \<Rightarrow> bool \<Rightarrow> DriveFileError \<times> DriveEntryProto option \<Rightarrow> DriveFileError
     \<Rightarrow> call list \<times> DriveFileError option" where
  "CreateFile file_path is_exclusive r_entry r_transfer =
     then_calls [MetadataGetEntryInfoByPath file_path]
       (OnGetEntryInfoForCreateFile file_path is_exclusive r_transfer (fst r_entry) (snd r_entry))"

subsection \<open>GetFileByPath, GetFileByResourceId and the pipeline behind them\<close>

text \<open>
  \<open>printf\<close> with \<open>%s\<close> copies a \<open>c_str()\<close> up to its first NUL character;
  \<open>static_cast<int>\<close> of a \<open>size_t\<close> keeps the low 32 bits as a signed number.
\<close>

definition c_str :: "string \<Rightarrow> string" where
  "c_str s = takeWhile (\<lambda>c. c \<noteq> CHR 0x00) s"

definition static_cast_int :: "nat \<Rightarrow> int" where
  "static_cast_int n = sint (word_of_nat n :: 32 word)"

definition document_content_of :: "string \<Rightarrow> string \<Rightarrow> string" where
  \<open>document_content_of url rid =
     ''{"url": "'' @ c_str url @ ''", "resource_id": "'' @ c_str rid @ ''"}''\<close>

text \<open>
  \<open>r_create\<close> is what \<open>file_util::CreateTemporaryFileInDir\<close> returns together with
  the path it stores, \<open>r_write\<close> is what \<open>file_util::WriteFile\<close> returns. The result
  is the calls, the error and the final value of \<open>*temp_file_path\<close>.
\<close>

definition CreateDocumentJsonFileOnBlockingPool ::
  "bool \<times> FilePath \<Rightarrow> int \<Rightarrow> FilePath \<Rightarrow> GURL \<Rightarrow> string
     \<Rightarrow> call list \<times> DriveFileError \<times> FilePath" where
  "CreateDocumentJsonFileOnBlockingPool r_create r_write document_dir edit_url rid =
     (if fst r_create then
        (let temp_file_path = snd r_create;
             document_content = document_content_of edit_url rid;
             document_size = static_cast_int (length document_content);
             calls = [CreateTemporaryFileInDir document_dir,
                      WriteFile temp_file_path document_content document_size]
         in if r_write = document_size then (calls, DRIVE_FILE_OK, temp_file_path)
            else (calls, DRIVE_FILE_ERROR_FAILED, []))
      else ([CreateTemporaryFileInDir document_dir], DRIVE_FILE_ERROR_FAILED, []))"

text \<open>
  \<open>GetResolvedFileParams\<close>, without its two callbacks: what \<open>get_file_callback\<close> is
  run with is the result of the pipeline.
\<close>

record GetResolvedFileParams =
  drive_file_path :: FilePath
  client_context :: DriveClientContext
  entry_proto :: DriveEntryProto

type_synonym GetFileResult = "DriveFileError \<times> FilePath \<times> string \<times> DriveFileType"

definition OnError :: "DriveFileError \<Rightarrow> GetFileResult" where
  "OnError error = (error, [], [], REGULAR_FILE)"

definition OnCacheFound :: "GetResolvedFileParams \<Rightarrow> FilePath \<Rightarrow> GetFileResult" where
  "OnCacheFound params local_file_path =
     (if is_hosted_document (file_specific_info (entry_proto params))
      then (DRIVE_FILE_OK, local_file_path, kMimeTypeJson, HOSTED_DOCUMENT)
      else (DRIVE_FILE_OK, local_file_path,
            content_mime_type (file_specific_info (entry_proto params)), REGULAR_FILE))"

definition OnStoreCompleted :: "GetResolvedFileParams \<Rightarrow> FilePath \<Rightarrow> GetFileResult" where
  "OnStoreCompleted params local_file_path =
     (DRIVE_FILE_OK, local_file_path,
      content_mime_type (file_specific_info (entry_proto params)), REGULAR_FILE)"

text \<open>The replies of the collaborators along the pipeline, one for each call site.\<close>

record GetFileReplies =
  r_create_document_file :: "bool \<times> FilePath"
  r_write_document :: int
  r_get_file_from_cache :: "DriveFileError \<times> FilePath"
  r_get_resource_entry :: "GDataErrorCode \<times> ResourceEntry option"
  r_refresh_entry :: "DriveFileError \<times> FilePath \<times> DriveEntryProto option"
  r_free_disk_space :: bool
  r_create_temporary_file :: "bool \<times> FilePath"
  r_download_file :: "GDataErrorCode \<times> FilePath"
  r_get_cache_entry_for_cancel :: "bool \<times> DriveCacheEntry"
  r_store :: DriveFileError
  r_get_file :: "DriveFileError \<times> FilePath"

definition GetResolvedFileByPathAfterGetFile ::
  "GetResolvedFileParams \<Rightarrow> DriveFileError \<Rightarrow> FilePath \<Rightarrow> call list \<times> GetFileResult option" where
  "GetResolvedFileByPathAfterGetFile params error cache_file =
     (if error \<noteq> DRIVE_FILE_OK then ([], Some (OnError error))
      else ([], Some (OnStoreCompleted params cache_file)))"

definition GetResolvedFileByPathAfterStore ::
  "Helpers \<Rightarrow> GetFileReplies \<Rightarrow> GetResolvedFileParams \<Rightarrow> FilePath \<Rightarrow> DriveFileError
     \<Rightarrow> call list \<times> GetFileResult option" where
  "GetResolvedFileByPathAfterStore h r params downloaded_file_path error =
     (if error \<noteq> DRIVE_FILE_OK then
        ([DeleteFile downloaded_file_path False], Some (OnError error))
      else
        then_calls
          [ObserverOnDirectoryChanged (DirName h (drive_file_path params)),
           CacheGetFile (resource_id (entry_proto params))
             (file_md5 (file_specific_info (entry_proto params)))]
          (GetResolvedFileByPathAfterGetFile params
             (fst (r_get_file r)) (snd (r_get_file r))))"

definition GetResolvedFileByPathAfterGetCacheEntryForCancel ::
  "string \<Rightarrow> string \<Rightarrow> bool \<Rightarrow> DriveCacheEntry \<Rightarrow> call list" where
  "GetResolvedFileByPathAfterGetCacheEntryForCancel rid md5 success cache_entry =
     (if success \<and> is_pinned cache_entry then [CacheUnpin rid md5] else [])"

text \<open>
  On \<open>GDATA_CANCELLED\<close> the cache entry is asked for and the function goes on at
  once; the calls of that side chain are listed where the chain starts.
\<close>

definition GetResolvedFileByPathAfterDownloadFile ::
  "Helpers \<Rightarrow> GetFileReplies \<Rightarrow> GetResolvedFileParams \<Rightarrow> GDataErrorCode \<Rightarrow> FilePath
     \<Rightarrow> call list \<times> GetFileResult option" where
  "GetResolvedFileByPathAfterDownloadFile h r params status downloaded_file_path =
     (let rid = resource_id (entry_proto params);
          md5 = file_md5 (file_specific_info (entry_proto params));
          cancel_calls =
            (if status = GDATA_CANCELLED then
               CacheGetCacheEntry rid md5 #
               GetResolvedFileByPathAfterGetCacheEntryForCancel rid md5
                 (fst (r_get_cache_entry_for_cancel r)) (snd (r_get_cache_entry_for_cancel r))
             else []);
          error = GDataToDriveFileError h status
      in if error \<noteq> DRIVE_FILE_OK then (cancel_calls, Some (OnError error))
         else
           then_calls
             (cancel_calls @ [CacheStore rid md5 downloaded_file_path FILE_OPERATION_MOVE])
             (GetResolvedFileByPathAfterStore h r params downloaded_file_path (r_store r)))"

definition GetResolveFileByPathAfterCreateTemporaryFile ::
  "Helpers \<Rightarrow> GetFileReplies \<Rightarrow> GetResolvedFileParams \<Rightarrow> GURL \<Rightarrow> FilePath \<Rightarrow> bool
     \<Rightarrow> call list \<times> GetFileResult option" where
  "GetResolveFileByPathAfterCreateTemporaryFile h r params url temp_file success =
     (if \<not> success then ([], Some (OnError DRIVE_FILE_ERROR_FAILED))
      else
        then_calls
          [SchedulerDownloadFile (drive_file_path params) temp_file url (client_context params)]
          (GetResolvedFileByPathAfterDownloadFile h r params
             (fst (r_download_file r)) (snd (r_download_file r))))"

definition GetResolvedFileByPathAfterFreeDiskSpace ::
  "Helpers \<Rightarrow> GetFileReplies \<Rightarrow> GetResolvedFileParams \<Rightarrow> GURL \<Rightarrow> bool
     \<Rightarrow> call list \<times> GetFileResult option" where
  "GetResolvedFileByPathAfterFreeDiskSpace h r params url has_enough_space =
     (if \<not> has_enough_space then ([], Some (OnError DRIVE_FILE_ERROR_NO_SPACE))
      else
        then_calls
          [CreateTemporaryFileInDir (GetCacheDirectoryPath h CACHE_TYPE_TMP_DOWNLOADS)]
          (GetResolveFileByPathAfterCreateTemporaryFile h r params url
             (snd (r_create_temporary_file r)) (fst (r_create_temporary_file r))))"

definition GetResolvedFileByPathAfterRefreshEntry ::
  "Helpers \<Rightarrow> GetFileReplies \<Rightarrow> GetResolvedFileParams \<Rightarrow> GURL \<Rightarrow> DriveFileError
     \<Rightarrow> FilePath \<Rightarrow> DriveEntryProto option \<Rightarrow> call list \<times> GetFileResult option" where
  "GetResolvedFileByPathAfterRefreshEntry h r params url error path refreshed =
     (if error \<noteq> DRIVE_FILE_OK then ([], Some (OnError error))
      else
        (case refreshed of
           None \<Rightarrow> ([], None)
         | Some e \<Rightarrow>
             then_calls [CacheFreeDiskSpaceIfNeededFor (file_size (file_info e))]
               (GetResolvedFileByPathAfterFreeDiskSpace h r (params\<lparr>entry_proto := e\<rparr>) url
                  (r_free_disk_space r))))"

definition GetResolvedFileByPathAfterGetResourceEntry ::
  "Helpers \<Rightarrow> GetFileReplies \<Rightarrow> GetResolvedFileParams \<Rightarrow> GDataErrorCode
     \<Rightarrow> ResourceEntry option \<Rightarrow> call list \<times> GetFileResult option" where
  "GetResolvedFileByPathAfterGetResourceEntry h r params status entry =
     (let error = GDataToDriveFileError h status
      in if error \<noteq> DRIVE_FILE_OK then ([], Some (OnError error))
         else
           (case entry of
              None \<Rightarrow> ([], None)
            | Some e \<Rightarrow>
                if download_url e = [] then ([], Some (OnError DRIVE_FILE_ERROR_ACCESS_DENIED))
                else
                  then_calls
                    [MetadataRefreshEntry (ConvertResourceEntryToDriveEntryProto h e)]
                    (GetResolvedFileByPathAfterRefreshEntry h r params (download_url e)
                       (fst (r_refresh_entry r)) (fst (snd (r_refresh_entry r)))
                       (snd (snd (r_refresh_entry r))))))"

definition GetResolvedFileByPathAfterGetFileFromCache ::
  "Helpers \<Rightarrow> GetFileReplies \<Rightarrow> GetResolvedFileParams \<Rightarrow> DriveFileError \<Rightarrow> FilePath
     \<Rightarrow> call list \<times> GetFileResult option" where
  "GetResolvedFileByPathAfterGetFileFromCache h r params error cache_file_path =
     (if error = DRIVE_FILE_OK then ([], Some (OnCacheFound params cache_file_path))
      else
        then_calls
          [SchedulerGetResourceEntry (resource_id (entry_proto params)) (client_context params)]
          (GetResolvedFileByPathAfterGetResourceEntry h r params
             (fst (r_get_resource_entry r)) (snd (r_get_resource_entry r))))"

definition GetResolvedFileByPathAfterCreateDocumentJsonFile ::
  "GetResolvedFileParams \<Rightarrow> FilePath \<Rightarrow> DriveFileError \<Rightarrow> call list \<times> GetFileResult option" where
  "GetResolvedFileByPathAfterCreateDocumentJsonFile params file_path error =
     (if error \<noteq> DRIVE_FILE_OK then ([], Some (OnError error))
      else ([], Some (OnCacheFound params file_path)))"

definition GetResolvedFileByPath ::
  "Helpers \<Rightarrow> GetFileReplies \<Rightarrow> GetResolvedFileParams \<Rightarrow> call list \<times> GetFileResult option" where
  "GetResolvedFileByPath h r params =
     (if \<not> has_file_specific_info (entry_proto params) then
        ([], Some (OnError DRIVE_FILE_ERROR_NOT_FOUND))
      else if is_hosted_document (file_specific_info (entry_proto params)) then
        (let created =
               CreateDocumentJsonFileOnBlockingPool
                 (r_create_document_file r) (r_write_document r)
                 (GetCacheDirectoryPath h CACHE_TYPE_TMP_DOCUMENTS)
                 (GURL_spec h (alternate_url (file_specific_info (entry_proto params))))
                 (resource_id (entry_proto params))
         in then_calls (fst created)
              (GetResolvedFileByPathAfterCreateDocumentJsonFile params
                 (snd (snd created)) (fst (snd created))))
      else
        then_calls
          [CacheGetFile (resource_id (entry_proto params))
             (file_md5 (file_specific_info (entry_proto params)))]
          (GetResolvedFileByPathAfterGetFileFromCache h r params
             (fst (r_get_file_from_cache r)) (snd (r_get_file_from_cache r))))"

definition OnGetEntryInfoCompleteForGetFileByPath ::
  "Helpers \<Rightarrow> GetFileReplies \<Rightarrow> FilePath \<Rightarrow> DriveFileError \<Rightarrow> DriveEntryProto option
     \<Rightarrow> call list \<times> GetFileResult option" where
  "OnGetEntryInfoCompleteForGetFileByPath h r file_path error entry =
     (if error \<noteq> DRIVE_FILE_OK then ([], Some (error, [], [], REGULAR_FILE))
      else
        (case entry of
           None \<Rightarrow> ([], None)
         | Some e \<Rightarrow>
             GetResolvedFileByPath h r
               \<lparr>drive_file_path = file_path,
                client_context = DriveClientContext USER_INITIATED,
                entry_proto = e\<rparr>))"

definition GetFileByPath ::
  "Helpers \<Rightarrow> GetFileReplies \<Rightarrow> FilePath \<Rightarrow> DriveFileError \<times> DriveEntryProto option
     \<Rightarrow> call list \<times> GetFileResult option" where
  "GetFileByPath h r file_path r_entry =
     then_calls [MetadataGetEntryInfoByPath file_path]
       (OnGetEntryInfoCompleteForGetFileByPath h r file_path (fst r_entry) (snd r_entry))"

definition GetFileByResourceIdAfterGetEntry ::
  "Helpers \<Rightarrow> GetFileReplies \<Rightarrow> DriveClientContext \<Rightarrow> DriveFileError \<Rightarrow> FilePath
     \<Rightarrow> DriveEntryProto option \<Rightarrow> call list \<times> GetFileResult option" where
  "GetFileByResourceIdAfterGetEntry h r ctx error file_path entry =
     (if error \<noteq> DRIVE_FILE_OK then
        ([], Some (DRIVE_FILE_ERROR_NOT_FOUND, [], [], REGULAR_FILE))
      else
        (case entry of
           None \<Rightarrow> ([], None)
         | Some e \<Rightarrow>
             GetResolvedFileByPath h r
               \<lparr>drive_file_path = file_path, client_context = ctx, entry_proto = e\<rparr>))"

definition GetFileByResourceId ::
  "Helpers \<Rightarrow> GetFileReplies \<Rightarrow> string \<Rightarrow> DriveClientContext
     \<Rightarrow> DriveFileError \<times> FilePath \<times> DriveEntryProto option
     \<Rightarrow> call list \<times> GetFileResult option" where
  "GetFileByResourceId h r rid ctx r_entry =
     then_calls [MetadataGetEntryInfoByResourceId rid]
       (GetFileByResourceIdAfterGetEntry h r ctx
          (fst r_entry) (fst (snd r_entry)) (snd (snd r_entry)))"

subsection \<open>OpenFile and CloseFile\<close>

text \<open>\<open>GetFileCompleteForOpenParams\<close> without its callback.\<close>

record GetFileCompleteForOpenParams =
  open_resource_id :: string
  open_md5 :: string

type_synonym OpenFileResult = "DriveFileError \<times> FilePath"

text \<open>
  The replies along \<open>OpenFile\<close>: the metadata lookup, the pipeline, \<open>MarkDirty\<close> and
  the final \<open>GetFile\<close> of the cache.
\<close>

record OpenFileReplies =
  r_open_entry_info :: "DriveFileError \<times> DriveEntryProto option"
  r_open_pipeline :: GetFileReplies
  r_mark_dirty :: DriveFileError
  r_open_get_file :: "DriveFileError \<times> FilePath"

definition OnOpenFileFinished ::
  "DriveFileSystem \<Rightarrow> FilePath \<Rightarrow> DriveFileError \<Rightarrow> FilePath
     \<Rightarrow> DriveFileSystem \<times> OpenFileResult" where
  "OnOpenFileFinished s file_path result cache_file_path =
     ((if result \<noteq> DRIVE_FILE_OK then s\<lparr>open_files := open_files s - {file_path}\<rparr> else s),
      (result, cache_file_path))"

definition OnMarkDirtyInCacheCompleteForOpenFile ::
  "OpenFileReplies \<Rightarrow> GetFileCompleteForOpenParams \<Rightarrow> DriveFileError
     \<Rightarrow> call list \<times> OpenFileResult option" where
  "OnMarkDirtyInCacheCompleteForOpenFile ro params error =
     (if error \<noteq> DRIVE_FILE_OK then ([], Some (error, []))
      else ([CacheGetFile (open_resource_id params) (open_md5 params)],
            Some (r_open_get_file ro)))"

definition OnGetFileCompleteForOpenFile ::
  "OpenFileReplies \<Rightarrow> GetFileCompleteForOpenParams \<Rightarrow> DriveFileError \<Rightarrow> FilePath
     \<Rightarrow> string \<Rightarrow> DriveFileType \<Rightarrow> call list \<times> OpenFileResult option" where
  "OnGetFileCompleteForOpenFile ro params error file_path mime_type file_type =
     (if error \<noteq> DRIVE_FILE_OK then ([], Some (error, []))
      else
        then_calls [CacheMarkDirty (open_resource_id params) (open_md5 params)]
          (OnMarkDirtyInCacheCompleteForOpenFile ro params (r_mark_dirty ro)))"

text \<open>
  The two assignments to \<open>error\<close> are \<open>error1\<close> and \<open>error2\<close>. With no entry and
  \<open>DRIVE_FILE_OK\<close> the function dereferences the null entry.
\<close>

definition OnGetEntryInfoCompleteForOpenFile ::
  "Helpers \<Rightarrow> OpenFileReplies \<Rightarrow> FilePath \<Rightarrow> DriveFileError \<Rightarrow> DriveEntryProto option
     \<Rightarrow> call list \<times> OpenFileResult option" where
  "OnGetEntryInfoCompleteForOpenFile h ro file_path error entry =
     (case entry of
        None \<Rightarrow> if error = DRIVE_FILE_OK then ([], None) else ([], Some (error, []))
      | Some e \<Rightarrow>
          (let error1 = (if \<not> has_file_specific_info e then DRIVE_FILE_ERROR_NOT_FOUND
                         else error);
               error2 = (if error1 = DRIVE_FILE_OK
                            \<and> (file_md5 (file_specific_info e) = []
                                 \<or> is_hosted_document (file_specific_info e))
                         then DRIVE_FILE_ERROR_INVALID_OPERATION else error1)
           in if error2 \<noteq> DRIVE_FILE_OK then ([], Some (error2, []))
              else
                (let got = GetResolvedFileByPath h (r_open_pipeline ro)
                             \<lparr>drive_file_path = file_path,
                              client_context = DriveClientContext USER_INITIATED,
                              entry_proto = e\<rparr>
                 in case snd got of
                      None \<Rightarrow> (fst got, None)
                    | Some (err, local_path, mime_type, file_type) \<Rightarrow>
                        then_calls (fst got)
                          (OnGetFileCompleteForOpenFile ro
                             \<lparr>open_resource_id = resource_id e,
                              open_md5 = file_md5 (file_specific_info e)\<rparr>
                             err local_path mime_type file_type))))"

text \<open>
  The result is the state when the caller's callback runs, the calls, and the
  arguments of the callback. In the first branch the callback is posted to the
  message loop with \<open>DRIVE_FILE_ERROR_IN_USE\<close>.
\<close>

definition OpenFile ::
  "Helpers \<Rightarrow> OpenFileReplies \<Rightarrow> DriveFileSystem \<Rightarrow> FilePath
     \<Rightarrow> DriveFileSystem \<times> call list \<times> OpenFileResult option" where
  "OpenFile h ro s file_path =
     (if file_path \<in> open_files s then (s, [], Some (DRIVE_FILE_ERROR_IN_USE, []))
      else
        (let s1 = s\<lparr>open_files := insert file_path (open_files s)\<rparr>;
             run = then_calls [MetadataGetEntryInfoByPath file_path]
                     (OnGetEntryInfoCompleteForOpenFile h ro file_path
                        (fst (r_open_entry_info ro)) (snd (r_open_entry_info ro)))
         in case snd run of
              None \<Rightarrow> (s1, fst run, None)
            | Some (result, cache_file_path) \<Rightarrow>
                (fst (OnOpenFileFinished s1 file_path result cache_file_path), fst run,
                 Some (snd (OnOpenFileFinished s1 file_path result cache_file_path)))))"

text \<open>\<open>r_commit\<close> is the error with which \<open>CommitDirty\<close> runs its callback.\<close>

definition CloseFileAfterGetEntryInfo ::
  "DriveFileError \<Rightarrow> FilePath \<Rightarrow> DriveFileError \<Rightarrow> DriveEntryProto option
     \<Rightarrow> call list \<times> DriveFileError option" where
  "CloseFileAfterGetEntryInfo r_commit file_path error entry =
     (case entry of
        None \<Rightarrow> if error \<noteq> DRIVE_FILE_OK then ([], Some error) else ([], None)
      | Some e \<Rightarrow>
          (let error1 = (if \<not> has_file_specific_info e then DRIVE_FILE_ERROR_NOT_FOUND
                         else error)
           in if error1 \<noteq> DRIVE_FILE_OK then ([], Some error1)
              else ([CacheCommitDirty (resource_id e) (file_md5 (file_specific_info e))],
                    Some r_commit)))"

definition CloseFileFinalize ::
  "DriveFileSystem \<Rightarrow> FilePath \<Rightarrow> DriveFileError \<Rightarrow> DriveFileSystem \<times> DriveFileError" where
  "CloseFileFinalize s file_path result =
     (s\<lparr>open_files := open_files s - {file_path}\<rparr>, result)"

definition CloseFile ::
  "DriveFileSystem \<Rightarrow> FilePath \<Rightarrow> DriveFileError \<times> DriveEntryProto option \<Rightarrow> DriveFileError
     \<Rightarrow> DriveFileSystem \<times> call list \<times> DriveFileError option" where
  "CloseFile s file_path r_entry r_commit =
     (if file_path \<notin> open_files s then (s, [], Some DRIVE_FILE_ERROR_NOT_FOUND)
      else
        (let run = then_calls [MetadataGetEntryInfoByPath file_path]
                     (CloseFileAfterGetEntryInfo r_commit file_path (fst r_entry) (snd r_entry))
         in case snd run of
              None \<Rightarrow> (s, fst run, None)
            | Some result \<Rightarrow>
                (fst (CloseFileFinalize s file_path result), fst run,
                 Some (snd (CloseFileFinalize s file_path result)))))"

subsection \<open>GetEntryInfoByPath, GetEntryInfoByResourceId and the local modification check\<close>

record LocalModificationReplies =
  r_get_cache_entry :: "bool \<times> DriveCacheEntry"
  r_get_cache_file :: "DriveFileError \<times> FilePath"
  r_get_file_info :: "bool \<times> PlatformFileInfo"

type_synonym GetEntryInfoResult = "DriveFileError \<times> DriveEntryProto option"

definition CheckLocalModificationAndRunAfterGetFileInfo ::
  "Helpers \<Rightarrow> DriveEntryProto \<Rightarrow> PlatformFileInfo \<Rightarrow> bool \<Rightarrow> GetEntryInfoResult" where
  "CheckLocalModificationAndRunAfterGetFileInfo h entry info get_file_info_result =
     (if \<not> get_file_info_result then (DRIVE_FILE_ERROR_NOT_FOUND, None)
      else (DRIVE_FILE_OK,
            Some (entry\<lparr>file_info := ConvertPlatformFileInfoToProto h info\<rparr>)))"

definition CheckLocalModificationAndRunAfterGetCacheFile ::
  "Helpers \<Rightarrow> LocalModificationReplies \<Rightarrow> DriveEntryProto \<Rightarrow> DriveFileError \<Rightarrow> FilePath
     \<Rightarrow> call list \<times> GetEntryInfoResult" where
  "CheckLocalModificationAndRunAfterGetCacheFile h rl entry error local_cache_path =
     (if error \<noteq> DRIVE_FILE_OK then ([], (DRIVE_FILE_OK, Some entry))
      else ([GetFileInfo local_cache_path],
            CheckLocalModificationAndRunAfterGetFileInfo h entry
              (snd (r_get_file_info rl)) (fst (r_get_file_info rl))))"

definition CheckLocalModificationAndRunAfterGetCacheEntry ::
  "Helpers \<Rightarrow> LocalModificationReplies \<Rightarrow> DriveEntryProto \<Rightarrow> bool \<Rightarrow> DriveCacheEntry
     \<Rightarrow> call list \<times> GetEntryInfoResult" where
  "CheckLocalModificationAndRunAfterGetCacheEntry h rl entry success cache_entry =
     (if \<not> success \<or> \<not> is_dirty cache_entry then ([], (DRIVE_FILE_OK, Some entry))
      else
        then_calls
          [CacheGetFile (resource_id entry) (file_md5 (file_specific_info entry))]
          (CheckLocalModificationAndRunAfterGetCacheFile h rl entry
             (fst (r_get_cache_file rl)) (snd (r_get_cache_file rl))))"

definition CheckLocalModificationAndRun ::
  "Helpers \<Rightarrow> LocalModificationReplies \<Rightarrow> DriveEntryProto
     \<Rightarrow> call list \<times> GetEntryInfoResult" where
  "CheckLocalModificationAndRun h rl entry =
     (if \<not> has_file_specific_info entry \<or> is_hosted_document (file_specific_info entry)
      then ([], (DRIVE_FILE_OK, Some entry))
      else
        then_calls
          [CacheGetCacheEntry (resource_id entry) (file_md5 (file_specific_info entry))]
          (CheckLocalModificationAndRunAfterGetCacheEntry h rl entry
             (fst (r_get_cache_entry rl)) (snd (r_get_cache_entry rl))))"

text \<open>
  The replies along \<open>GetEntryInfoByPath\<close>: the first lookup, the load, the second
  lookup, and the local modification check.
\<close>

record GetEntryInfoReplies =
  r_entry1 :: "DriveFileError \<times> DriveEntryProto option"
  r_load :: DriveFileError
  r_entry2 :: "DriveFileError \<times> DriveEntryProto option"
  r_local :: LocalModificationReplies

text \<open>
  \<open>CheckLocalModificationAndRun\<close> on an entry that may be null: the null entry is
  dereferenced.
\<close>

definition check_entry ::
  "Helpers \<Rightarrow> LocalModificationReplies \<Rightarrow> DriveEntryProto option
     \<Rightarrow> call list \<times> GetEntryInfoResult option" where
  "check_entry h rl entry =
     (case entry of
        None \<Rightarrow> ([], None)
      | Some e \<Rightarrow> (fst (CheckLocalModificationAndRun h rl e),
                   Some (snd (CheckLocalModificationAndRun h rl e))))"

definition GetEntryInfoByPathAfterGetEntry2 ::
  "Helpers \<Rightarrow> GetEntryInfoReplies \<Rightarrow> DriveFileError \<Rightarrow> DriveEntryProto option
     \<Rightarrow> call list \<times> GetEntryInfoResult option" where
  "GetEntryInfoByPathAfterGetEntry2 h rg error entry =
     (if error \<noteq> DRIVE_FILE_OK then ([], Some (error, None))
      else check_entry h (r_local rg) entry)"

definition GetEntryInfoByPathAfterLoad ::
  "Helpers \<Rightarrow> GetEntryInfoReplies \<Rightarrow> FilePath \<Rightarrow> DriveFileError
     \<Rightarrow> call list \<times> GetEntryInfoResult option" where
  "GetEntryInfoByPathAfterLoad h rg file_path error =
     (if error \<noteq> DRIVE_FILE_OK then ([], Some (error, None))
      else
        then_calls [MetadataGetEntryInfoByPath file_path]
          (GetEntryInfoByPathAfterGetEntry2 h rg (fst (r_entry2 rg)) (snd (r_entry2 rg))))"

definition GetEntryInfoByPathAfterGetEntry1 ::
  "Helpers \<Rightarrow> GetEntryInfoReplies \<Rightarrow> FilePath \<Rightarrow> DriveFileError \<Rightarrow> DriveEntryProto option
     \<Rightarrow> call list \<times> GetEntryInfoResult option" where
  "GetEntryInfoByPathAfterGetEntry1 h rg file_path error entry =
     (if error = DRIVE_FILE_OK then check_entry h (r_local rg) entry
      else
        then_calls [LoaderLoadIfNeeded None]
          (GetEntryInfoByPathAfterLoad h rg file_path (r_load rg)))"

definition GetEntryInfoByPath ::
  "Helpers \<Rightarrow> GetEntryInfoReplies \<Rightarrow> FilePath \<Rightarrow> call list \<times> GetEntryInfoResult option" where
  "GetEntryInfoByPath h rg file_path =
     then_calls [MetadataGetEntryInfoByPath file_path]
       (GetEntryInfoByPathAfterGetEntry1 h rg file_path
          (fst (r_entry1 rg)) (snd (r_entry1 rg)))"

text \<open>
  By resource id the callback also receives the path of the entry: the result is
  the error, the path and the entry.
\<close>

definition GetEntryInfoByResourceIdAfterGetEntry ::
  "Helpers \<Rightarrow> LocalModificationReplies \<Rightarrow> DriveFileError \<Rightarrow> FilePath
     \<Rightarrow> DriveEntryProto option
     \<Rightarrow> call list \<times> (DriveFileError \<times> FilePath \<times> DriveEntryProto option) option" where
  "GetEntryInfoByResourceIdAfterGetEntry h rl error file_path entry =
     (if error \<noteq> DRIVE_FILE_OK then ([], Some (error, [], None))
      else
        (case snd (check_entry h rl entry) of
           None \<Rightarrow> (fst (check_entry h rl entry), None)
         | Some (err, checked) \<Rightarrow>
             (fst (check_entry h rl entry), Some (err, file_path, checked))))"

definition GetEntryInfoByResourceId ::
  "Helpers \<Rightarrow> LocalModificationReplies \<Rightarrow> string
     \<Rightarrow> DriveFileError \<times> FilePath \<times> DriveEntryProto option
     \<Rightarrow> call list \<times> (DriveFileError \<times> FilePath \<times> DriveEntryProto option) option" where
  "GetEntryInfoByResourceId h rl rid r_entry =
     then_calls [MetadataGetEntryInfoByResourceId rid]
       (GetEntryInfoByResourceIdAfterGetEntry h rl
          (fst r_entry) (fst (snd r_entry)) (snd (snd r_entry)))"

subsection \<open>Reachable states\<close>

text \<open>
  The states of a file system: the constructed one, and what the operations above
  make of a state (\<open>StartPolling\<close> under its assertion).
\<close>

inductive reachable :: "DriveFileSystem \<Rightarrow> bool" where
  reachable_new: "reachable DriveFileSystem_new"
| reachable_StartPolling:
    "reachable s \<Longrightarrow> StartPolling_DCHECK s \<Longrightarrow> reachable (StartPolling s)"
| reachable_StopPolling: "reachable s \<Longrightarrow> reachable (StopPolling s)"
| reachable_SetPushNotificationEnabled:
    "reachable s \<Longrightarrow> reachable (SetPushNotificationEnabled s enabled)"
| reachable_OpenFile: "reachable s \<Longrightarrow> reachable (fst (OpenFile h ro s file_path))"
| reachable_CloseFile:
    "reachable s \<Longrightarrow> reachable (fst (CloseFile s file_path r_entry r_commit))"

subsection \<open>Sample inputs\<close>

text \<open>Concrete helpers, entries and replies at which the theorems below are instantiated.\<close>

definition sample_file_info :: PlatformFileInfoProto where
  "sample_file_info =
     \<lparr>file_size = 10, is_directory = False, is_symbolic_link = False,
      last_modified = 1000, last_accessed = 1000, creation_time = 900\<rparr>"

definition sample_file_entry :: DriveEntryProto where
  "sample_file_entry =
     \<lparr>resource_id = ''file:1'',
      file_info = sample_file_info,
      file_specific_info_field =
        Some \<lparr>content_mime_type = ''text/plain'', file_md5 = ''md5-1'',
              is_hosted_document = False, alternate_url = []\<rparr>,
      directory_changestamp = 0\<rparr>"

definition sample_refreshed_entry :: DriveEntryProto where
  "sample_refreshed_entry =
     \<lparr>resource_id = ''file:1'',
      file_info = sample_file_info\<lparr>file_size := 12\<rparr>,
      file_specific_info_field =
        Some \<lparr>content_mime_type = ''text/plain'', file_md5 = ''md5-2'',
              is_hosted_document = False, alternate_url = []\<rparr>,
      directory_changestamp = 0\<rparr>"

definition sample_hosted_entry :: DriveEntryProto where
  "sample_hosted_entry =
     \<lparr>resource_id = ''document:1'',
      file_info = sample_file_info,
      file_specific_info_field =
        Some \<lparr>content_mime_type = ''application/vnd.google-apps.document'', file_md5 = [],
              is_hosted_document = True, alternate_url = ''https://docs/edit?id=1''\<rparr>,
      directory_changestamp = 0\<rparr>"

definition sample_helpers :: Helpers where
  "sample_helpers =
     \<lparr>GDataToDriveFileError =
        (\<lambda>status. if status = GDATA_CODE 200 then DRIVE_FILE_OK
                  else if status = GDATA_CANCELLED then DRIVE_FILE_ERROR_OTHER 12
                  else DRIVE_FILE_ERROR_FAILED),
      ConvertResourceEntryToDriveEntryProto = (\<lambda>entry. sample_refreshed_entry),
      ConvertPlatformFileInfoToProto =
        (\<lambda>info. \<lparr>file_size = info_size info, is_directory = info_is_directory info,
                  is_symbolic_link = info_is_symbolic_link info,
                  last_modified = info_last_modified info,
                  last_accessed = info_last_accessed info,
                  creation_time = info_creation_time info\<rparr>),
      GetCacheDirectoryPath =
        (\<lambda>t. case t of CACHE_TYPE_TMP_DOWNLOADS \<Rightarrow> ''/cache/tmp/downloads''
                      | CACHE_TYPE_TMP_DOCUMENTS \<Rightarrow> ''/cache/tmp/documents''),
      DirName = (\<lambda>path. rev (drop 1 (dropWhile (\<lambda>c. c \<noteq> CHR ''/'') (rev path)))),
      GURL_spec = (\<lambda>url. url)\<rparr>"

text \<open>
  Replies of a run that misses the cache, downloads the file and stores it.
\<close>

definition sample_replies :: GetFileReplies where
  "sample_replies =
     \<lparr>r_create_document_file = (True, ''/cache/tmp/documents/stub''),
      r_write_document = 62,
      r_get_file_from_cache = (DRIVE_FILE_ERROR_NOT_FOUND, []),
      r_get_resource_entry =
        (GDATA_CODE 200,
         Some \<lparr>entry_resource_id = ''file:1'', download_url = ''https://dl/file1''\<rparr>),
      r_refresh_entry = (DRIVE_FILE_OK, ''drive/a.txt'', Some sample_refreshed_entry),
      r_free_disk_space = True,
      r_create_temporary_file = (True, ''/cache/tmp/downloads/t1''),
      r_download_file = (GDATA_CODE 200, ''/cache/tmp/downloads/t1''),
      r_get_cache_entry_for_cancel =
        (True, \<lparr>is_present = False, is_pinned = True, is_dirty = False\<rparr>),
      r_store = DRIVE_FILE_OK,
      r_get_file = (DRIVE_FILE_OK, ''/cache/persistent/file1'')\<rparr>"

definition sample_open_replies :: OpenFileReplies where
  "sample_open_replies =
     \<lparr>r_open_entry_info = (DRIVE_FILE_OK, Some sample_file_entry),
      r_open_pipeline = sample_replies\<lparr>r_get_file_from_cache := (DRIVE_FILE_OK, ''/cache/f1'')\<rparr>,
      r_mark_dirty = DRIVE_FILE_OK,
      r_open_get_file = (DRIVE_FILE_OK, ''/cache/f1.local'')\<rparr>"

definition sample_local_replies :: LocalModificationReplies where
  "sample_local_replies =
     \<lparr>r_get_cache_entry = (True, \<lparr>is_present = True, is_pinned = False, is_dirty = True\<rparr>),
      r_get_cache_file = (DRIVE_FILE_OK, ''/cache/f1.local''),
      r_get_file_info =
        (True, \<lparr>info_size = 25, info_is_directory = False, info_is_symbolic_link = False,
                info_last_modified = 2000, info_last_accessed = 2000,
                info_creation_time = 900\<rparr>)\<rparr>"

definition sample_entry_info_replies :: GetEntryInfoReplies where
  "sample_entry_info_replies =
     \<lparr>r_entry1 = (DRIVE_FILE_OK, Some sample_file_entry),
      r_load = DRIVE_FILE_OK,
      r_entry2 = (DRIVE_FILE_OK, Some sample_file_entry),
      r_local = sample_local_replies\<rparr>"

section \<open>Properties\<close>

lemma then_calls_simps [simp]:
  "fst (then_calls cs r) = cs @ fst r" "snd (then_calls cs r) = snd r"
  "then_calls cs (t, x) = (cs @ t, x)"
  by (simp_all add: then_calls_def)

subsection \<open>Creating a file where an entry exists\<close>

text \<open>
  Claim C1, as the code has it: when the metadata lookup finds an entry at the
  path, \<open>CreateFile\<close> makes no call besides that lookup (nothing reaches the remote
  service); it succeeds when the entry is a regular file and the request is not
  exclusive, and it fails with \<open>DRIVE_FILE_ERROR_EXISTS\<close> when the entry is a
  directory or a hosted document, whether the request is exclusive or not, and
  also when the request is exclusive.
\<close>

theorem CreateFile_existing_entry:
  "CreateFile file_path is_exclusive (DRIVE_FILE_OK, Some e) r_transfer =
     ([MetadataGetEntryInfoByPath file_path],
      Some (if is_exclusive \<or> is_directory (file_info e)
               \<or> is_hosted_document (file_specific_info e)
            then DRIVE_FILE_ERROR_EXISTS else DRIVE_FILE_OK))"
  by (simp add: CreateFile_def OnGetEntryInfoForCreateFile_def)

text \<open>
  A directory and a request that is not exclusive: the result is
  \<open>DRIVE_FILE_ERROR_EXISTS\<close>, not \<open>DRIVE_FILE_ERROR_INVALID_OPERATION\<close>.
\<close>

theorem CreateFile_directory_not_exclusive_counterexample:
  "snd (CreateFile ''drive/docs'' False
          (DRIVE_FILE_OK,
           Some \<lparr>resource_id = ''folder:1'',
                 file_info = \<lparr>file_size = 0, is_directory = True, is_symbolic_link = False,
                              last_modified = 0, last_accessed = 0, creation_time = 0\<rparr>,
                 file_specific_info_field = None,
                 directory_changestamp = 7\<rparr>)
          DRIVE_FILE_OK)
     = Some DRIVE_FILE_ERROR_EXISTS
   \<and> Some DRIVE_FILE_ERROR_EXISTS \<noteq> Some DRIVE_FILE_ERROR_INVALID_OPERATION"
  by (simp add: CreateFile_def OnGetEntryInfoForCreateFile_def)

subsection \<open>Shared facts about the pipeline\<close>

lemmas pipeline_defs =
  GetResolvedFileByPath_def GetResolvedFileByPathAfterCreateDocumentJsonFile_def
  GetResolvedFileByPathAfterGetFileFromCache_def GetResolvedFileByPathAfterGetResourceEntry_def
  GetResolvedFileByPathAfterRefreshEntry_def GetResolvedFileByPathAfterFreeDiskSpace_def
  GetResolveFileByPathAfterCreateTemporaryFile_def

lemma GetFileByPath_resolved:
  "GetFileByPath h r p (DRIVE_FILE_OK, Some e) =
     then_calls [MetadataGetEntryInfoByPath p]
       (GetResolvedFileByPath h r
          \<lparr>drive_file_path = p, client_context = DriveClientContext USER_INITIATED,
           entry_proto = e\<rparr>)"
  by (simp add: GetFileByPath_def OnGetEntryInfoCompleteForGetFileByPath_def)

lemma GetFileByResourceId_resolved:
  "GetFileByResourceId h r rid ctx (DRIVE_FILE_OK, p, Some e) =
     then_calls [MetadataGetEntryInfoByResourceId rid]
       (GetResolvedFileByPath h r
          \<lparr>drive_file_path = p, client_context = ctx, entry_proto = e\<rparr>)"
  by (simp add: GetFileByResourceId_def GetFileByResourceIdAfterGetEntry_def)

lemma GetResolvedFileByPath_cache_hit:
  assumes "has_file_specific_info (entry_proto params)"
    and "\<not> is_hosted_document (file_specific_info (entry_proto params))"
    and "r_get_file_from_cache r = (DRIVE_FILE_OK, cache_file_path)"
  shows "GetResolvedFileByPath h r params =
     ([CacheGetFile (resource_id (entry_proto params))
         (file_md5 (file_specific_info (entry_proto params)))],
      Some (DRIVE_FILE_OK, cache_file_path,
            content_mime_type (file_specific_info (entry_proto params)), REGULAR_FILE))"
  using assms
  by (simp add: GetResolvedFileByPath_def GetResolvedFileByPathAfterGetFileFromCache_def
      OnCacheFound_def)

lemma GetResolvedFileByPath_hosted:
  assumes "has_file_specific_info (entry_proto params)"
    and "is_hosted_document (file_specific_info (entry_proto params))"
  shows "GetResolvedFileByPath h r params =
     (let created = CreateDocumentJsonFileOnBlockingPool
                 (r_create_document_file r) (r_write_document r)
                 (GetCacheDirectoryPath h CACHE_TYPE_TMP_DOCUMENTS)
                 (GURL_spec h (alternate_url (file_specific_info (entry_proto params))))
                 (resource_id (entry_proto params))
      in (fst created,
          Some (if fst (snd created) = DRIVE_FILE_OK
                then (DRIVE_FILE_OK, snd (snd created), kMimeTypeJson, HOSTED_DOCUMENT)
                else OnError (fst (snd created)))))"
  using assms
  by (simp add: GetResolvedFileByPath_def GetResolvedFileByPathAfterCreateDocumentJsonFile_def
      OnCacheFound_def Let_def)

lemma GetResolvedFileByPath_download:
  assumes "has_file_specific_info (entry_proto params)"
    and "\<not> is_hosted_document (file_specific_info (entry_proto params))"
    and "fst (r_get_file_from_cache r) \<noteq> DRIVE_FILE_OK"
    and "r_get_resource_entry r = (status, Some entry)"
    and "GDataToDriveFileError h status = DRIVE_FILE_OK"
    and "download_url entry \<noteq> []"
    and "r_refresh_entry r = (DRIVE_FILE_OK, refreshed_path, Some refreshed)"
    and "r_free_disk_space r"
    and "r_create_temporary_file r = (True, temp_file)"
  shows "GetResolvedFileByPath h r params =
     then_calls
       [CacheGetFile (resource_id (entry_proto params))
          (file_md5 (file_specific_info (entry_proto params))),
        SchedulerGetResourceEntry (resource_id (entry_proto params)) (client_context params),
        MetadataRefreshEntry (ConvertResourceEntryToDriveEntryProto h entry),
        CacheFreeDiskSpaceIfNeededFor (file_size (file_info refreshed)),
        CreateTemporaryFileInDir (GetCacheDirectoryPath h CACHE_TYPE_TMP_DOWNLOADS),
        SchedulerDownloadFile (drive_file_path params) temp_file (download_url entry)
          (client_context params)]
       (GetResolvedFileByPathAfterDownloadFile h r (params\<lparr>entry_proto := refreshed\<rparr>)
          (fst (r_download_file r)) (snd (r_download_file r)))"
  using assms by (simp add: pipeline_defs then_calls_def)

lemma AfterDownloadFile_cancelled:
  assumes "GDataToDriveFileError h GDATA_CANCELLED \<noteq> DRIVE_FILE_OK"
  shows "GetResolvedFileByPathAfterDownloadFile h r params GDATA_CANCELLED downloaded =
     (CacheGetCacheEntry (resource_id (entry_proto params))
          (file_md5 (file_specific_info (entry_proto params))) #
        (if fst (r_get_cache_entry_for_cancel r) \<and> is_pinned (snd (r_get_cache_entry_for_cancel r))
         then [CacheUnpin (resource_id (entry_proto params))
                 (file_md5 (file_specific_info (entry_proto params)))]
         else []),
      Some (OnError (GDataToDriveFileError h GDATA_CANCELLED)))"
  using assms
  by (simp add: GetResolvedFileByPathAfterDownloadFile_def
      GetResolvedFileByPathAfterGetCacheEntryForCancel_def Let_def)

lemma open_success:
  assumes "OnGetEntryInfoCompleteForOpenFile h ro p error entry = (cs, Some (DRIVE_FILE_OK, local))"
  shows "\<exists>e. entry = Some e
            \<and> CacheMarkDirty (resource_id e) (file_md5 (file_specific_info e)) \<in> set cs"
  using assms
  by (auto simp: OnGetEntryInfoCompleteForOpenFile_def OnGetFileCompleteForOpenFile_def
      OnMarkDirtyInCacheCompleteForOpenFile_def Let_def then_calls_def
      split: option.splits if_splits prod.splits)

lemmas local_modification_defs =
  CheckLocalModificationAndRun_def CheckLocalModificationAndRunAfterGetCacheEntry_def
  CheckLocalModificationAndRunAfterGetCacheFile_def
  CheckLocalModificationAndRunAfterGetFileInfo_def

lemma c_str_no_NUL: "CHR 0x00 \<notin> set s \<Longrightarrow> c_str s = s"
  by (auto simp: c_str_def takeWhile_eq_all_conv)

lemma static_cast_int_small: "n < 2147483648 \<Longrightarrow> static_cast_int n = int n"
  unfolding static_cast_int_def
  by (simp add: signed_of_nat signed_take_bit_int_eq_self)

lemmas sample_defs =
  sample_helpers_def sample_replies_def sample_file_entry_def sample_refreshed_entry_def
  sample_file_info_def has_file_specific_info_def file_specific_info_def

subsection \<open>Opening and closing files\<close>

text \<open>
  Claim C2: \<open>OpenFile\<close> on a path in \<open>open_files\<close> resolves with
  \<open>DRIVE_FILE_ERROR_IN_USE\<close>, makes no call and leaves the state as it is. On a
  path not in \<open>open_files\<close> it goes on to the metadata lookup, and when it
  resolves with \<open>DRIVE_FILE_OK\<close> the cache was asked to mark the entry dirty and
  the path is in \<open>open_files\<close>.
\<close>

theorem OpenFile_in_use:
  "(file_path \<in> open_files s \<longrightarrow>
      OpenFile h ro s file_path = (s, [], Some (DRIVE_FILE_ERROR_IN_USE, [])))
   \<and> (file_path \<notin> open_files s \<longrightarrow>
        (\<exists>cs. fst (snd (OpenFile h ro s file_path)) = MetadataGetEntryInfoByPath file_path # cs)
      \<and> (\<forall>local. snd (snd (OpenFile h ro s file_path)) = Some (DRIVE_FILE_OK, local) \<longrightarrow>
            (\<exists>e. snd (r_open_entry_info ro) = Some e
                \<and> CacheMarkDirty (resource_id e) (file_md5 (file_specific_info e))
                    \<in> set (fst (snd (OpenFile h ro s file_path))))
            \<and> open_files (fst (OpenFile h ro s file_path)) = insert file_path (open_files s)))"
proof (intro conjI impI allI)
  assume "file_path \<in> open_files s"
  then show "OpenFile h ro s file_path = (s, [], Some (DRIVE_FILE_ERROR_IN_USE, []))"
    by (simp add: OpenFile_def)
next
  assume "file_path \<notin> open_files s"
  then show "\<exists>cs. fst (snd (OpenFile h ro s file_path)) = MetadataGetEntryInfoByPath file_path # cs"
    by (simp add: OpenFile_def Let_def split: option.splits prod.splits)
next
  fix local
  assume closed: "file_path \<notin> open_files s"
    and ok: "snd (snd (OpenFile h ro s file_path)) = Some (DRIVE_FILE_OK, local)"
  obtain cs res where run: "OnGetEntryInfoCompleteForOpenFile h ro file_path
      (fst (r_open_entry_info ro)) (snd (r_open_entry_info ro)) = (cs, res)"
    by (cases "OnGetEntryInfoCompleteForOpenFile h ro file_path
      (fst (r_open_entry_info ro)) (snd (r_open_entry_info ro))")
  from closed ok run have res: "res = Some (DRIVE_FILE_OK, local)"
    by (auto simp: OpenFile_def Let_def OnOpenFileFinished_def split: option.splits if_splits)
  from closed run res
  have trace: "fst (snd (OpenFile h ro s file_path)) = MetadataGetEntryInfoByPath file_path # cs"
    by (simp add: OpenFile_def Let_def)
  from open_success[OF run[unfolded res]] trace
  show "\<exists>e. snd (r_open_entry_info ro) = Some e
            \<and> CacheMarkDirty (resource_id e) (file_md5 (file_specific_info e))
                \<in> set (fst (snd (OpenFile h ro s file_path)))"
    by auto
  from closed run res
  show "open_files (fst (OpenFile h ro s file_path)) = insert file_path (open_files s)"
    by (simp add: OpenFile_def Let_def OnOpenFileFinished_def)
qed

theorem OpenFile_in_use_witness:
  "''drive/a.txt'' \<notin> open_files DriveFileSystem_new
   \<and> OpenFile sample_helpers sample_open_replies DriveFileSystem_new ''drive/a.txt'' =
       (DriveFileSystem_new\<lparr>open_files := {''drive/a.txt''}\<rparr>,
        [MetadataGetEntryInfoByPath ''drive/a.txt'', CacheGetFile ''file:1'' ''md5-1'',
         CacheMarkDirty ''file:1'' ''md5-1'', CacheGetFile ''file:1'' ''md5-1''],
        Some (DRIVE_FILE_OK, ''/cache/f1.local''))
   \<and> open_files (fst (OpenFile sample_helpers sample_open_replies DriveFileSystem_new
                          ''drive/a.txt''))
       = insert ''drive/a.txt'' (open_files DriveFileSystem_new)
   \<and> OpenFile sample_helpers sample_open_replies
         (DriveFileSystem_new\<lparr>open_files := {''drive/a.txt''}\<rparr>) ''drive/a.txt''
       = (DriveFileSystem_new\<lparr>open_files := {''drive/a.txt''}\<rparr>, [],
          Some (DRIVE_FILE_ERROR_IN_USE, []))"
proof -
  have closed: "''drive/a.txt'' \<notin> open_files DriveFileSystem_new"
    by (simp add: DriveFileSystem_new_def)
  have run: "OpenFile sample_helpers sample_open_replies DriveFileSystem_new ''drive/a.txt'' =
       (DriveFileSystem_new\<lparr>open_files := {''drive/a.txt''}\<rparr>,
        [MetadataGetEntryInfoByPath ''drive/a.txt'', CacheGetFile ''file:1'' ''md5-1'',
         CacheMarkDirty ''file:1'' ''md5-1'', CacheGetFile ''file:1'' ''md5-1''],
        Some (DRIVE_FILE_OK, ''/cache/f1.local''))"
    by (simp add: OpenFile_def OnGetEntryInfoCompleteForOpenFile_def
        OnGetFileCompleteForOpenFile_def OnMarkDirtyInCacheCompleteForOpenFile_def
        OnOpenFileFinished_def GetResolvedFileByPath_def
        GetResolvedFileByPathAfterGetFileFromCache_def OnCacheFound_def Let_def
        DriveFileSystem_new_def sample_defs sample_open_replies_def)
  have opened: "''drive/a.txt'' \<in> open_files (DriveFileSystem_new\<lparr>open_files := {''drive/a.txt''}\<rparr>)"
    by simp
  note inst1 = OpenFile_in_use[where file_path = "''drive/a.txt''" and s = DriveFileSystem_new
      and h = sample_helpers and ro = sample_open_replies]
  note inst2 = OpenFile_in_use[where file_path = "''drive/a.txt''"
      and s = "DriveFileSystem_new\<lparr>open_files := {''drive/a.txt''}\<rparr>"
      and h = sample_helpers and ro = sample_open_replies]
  from inst1 closed run
  have "open_files (fst (OpenFile sample_helpers sample_open_replies DriveFileSystem_new
                           ''drive/a.txt''))
       = insert ''drive/a.txt'' (open_files DriveFileSystem_new)"
    by simp
  moreover from inst2 opened
  have "OpenFile sample_helpers sample_open_replies
         (DriveFileSystem_new\<lparr>open_files := {''drive/a.txt''}\<rparr>) ''drive/a.txt''
       = (DriveFileSystem_new\<lparr>open_files := {''drive/a.txt''}\<rparr>, [],
          Some (DRIVE_FILE_ERROR_IN_USE, []))"
    by blast
  ultimately show ?thesis using closed run by simp
qed

text \<open>
  Claim C3: \<open>CloseFile\<close> on a path not in \<open>open_files\<close> resolves with
  \<open>DRIVE_FILE_ERROR_NOT_FOUND\<close>, makes no call (no \<open>CommitDirty\<close>) and leaves the
  state as it is. On a path in \<open>open_files\<close>, whenever the callback runs the path
  has been removed from \<open>open_files\<close>; the callback does run unless the metadata
  answers \<open>DRIVE_FILE_OK\<close> with no entry; and for a file entry the result is the
  one of \<open>CommitDirty\<close>, whatever it is.
\<close>

theorem CloseFile_open_set:
  "(file_path \<notin> open_files s \<longrightarrow>
      CloseFile s file_path r_entry r_commit = (s, [], Some DRIVE_FILE_ERROR_NOT_FOUND))
   \<and> (file_path \<in> open_files s \<longrightarrow>
        (\<forall>result. snd (snd (CloseFile s file_path r_entry r_commit)) = Some result \<longrightarrow>
           open_files (fst (CloseFile s file_path r_entry r_commit))
             = open_files s - {file_path})
      \<and> ((fst r_entry = DRIVE_FILE_OK \<longrightarrow> snd r_entry \<noteq> None) \<longrightarrow>
           snd (snd (CloseFile s file_path r_entry r_commit)) \<noteq> None)
      \<and> (\<forall>e. r_entry = (DRIVE_FILE_OK, Some e) \<and> has_file_specific_info e \<longrightarrow>
           CloseFile s file_path r_entry r_commit =
             (s\<lparr>open_files := open_files s - {file_path}\<rparr>,
              [MetadataGetEntryInfoByPath file_path,
               CacheCommitDirty (resource_id e) (file_md5 (file_specific_info e))],
              Some r_commit)))"
  by (auto simp: CloseFile_def CloseFileAfterGetEntryInfo_def CloseFileFinalize_def Let_def
      split: option.splits if_splits)

theorem CloseFile_open_set_witness:
  "''drive/a.txt'' \<in> open_files (DriveFileSystem_new\<lparr>open_files := {''drive/a.txt''}\<rparr>)
   \<and> CloseFile (DriveFileSystem_new\<lparr>open_files := {''drive/a.txt''}\<rparr>) ''drive/a.txt''
         (DRIVE_FILE_OK, Some sample_file_entry) DRIVE_FILE_ERROR_FAILED
       = (DriveFileSystem_new\<lparr>open_files := {}\<rparr>,
          [MetadataGetEntryInfoByPath ''drive/a.txt'', CacheCommitDirty ''file:1'' ''md5-1''],
          Some DRIVE_FILE_ERROR_FAILED)
   \<and> ''drive/b.txt'' \<notin> open_files (DriveFileSystem_new\<lparr>open_files := {''drive/a.txt''}\<rparr>)
   \<and> CloseFile (DriveFileSystem_new\<lparr>open_files := {''drive/a.txt''}\<rparr>) ''drive/b.txt''
         (DRIVE_FILE_OK, Some sample_file_entry) DRIVE_FILE_OK
       = (DriveFileSystem_new\<lparr>open_files := {''drive/a.txt''}\<rparr>, [],
          Some DRIVE_FILE_ERROR_NOT_FOUND)"
proof -
  let ?s = "DriveFileSystem_new\<lparr>open_files := {''drive/a.txt''}\<rparr>"
  have opened: "''drive/a.txt'' \<in> open_files ?s" and closed: "''drive/b.txt'' \<notin> open_files ?s"
    by simp_all
  have info: "has_file_specific_info sample_file_entry"
    by (simp add: sample_defs)
  from CloseFile_open_set[where file_path = "''drive/a.txt''" and s = ?s
      and r_entry = "(DRIVE_FILE_OK, Some sample_file_entry)"
      and r_commit = DRIVE_FILE_ERROR_FAILED] opened info
  have "CloseFile ?s ''drive/a.txt'' (DRIVE_FILE_OK, Some sample_file_entry)
          DRIVE_FILE_ERROR_FAILED
       = (?s\<lparr>open_files := open_files ?s - {''drive/a.txt''}\<rparr>,
          [MetadataGetEntryInfoByPath ''drive/a.txt'',
           CacheCommitDirty (resource_id sample_file_entry)
             (file_md5 (file_specific_info sample_file_entry))],
          Some DRIVE_FILE_ERROR_FAILED)"
    by blast
  moreover
  from CloseFile_open_set[where file_path = "''drive/b.txt''" and s = ?s
      and r_entry = "(DRIVE_FILE_OK, Some sample_file_entry)" and r_commit = DRIVE_FILE_OK] closed
  have "CloseFile ?s ''drive/b.txt'' (DRIVE_FILE_OK, Some sample_file_entry) DRIVE_FILE_OK
       = (?s, [], Some DRIVE_FILE_ERROR_NOT_FOUND)"
    by blast
  ultimately show ?thesis
    by (simp add: sample_defs)
qed

text \<open>
  Claim C10: when \<open>OpenFile\<close> runs the callback with an error, \<open>open_files\<close> is
  what it was before the call (the state returned is the one the callback sees).
  If the path was not open before, it is not open afterwards, and a further
  \<open>OpenFile\<close> on it goes on to the metadata lookup, whatever the replies.
\<close>

theorem OpenFile_failed:
  assumes "snd (snd (OpenFile h ro s file_path)) = Some (error, local)"
    and "error \<noteq> DRIVE_FILE_OK"
  shows "open_files (fst (OpenFile h ro s file_path)) = open_files s
       \<and> (file_path \<notin> open_files s \<longrightarrow>
            file_path \<notin> open_files (fst (OpenFile h ro s file_path))
          \<and> (\<forall>h' ro'. \<exists>cs.
                fst (snd (OpenFile h' ro' (fst (OpenFile h ro s file_path)) file_path))
                  = MetadataGetEntryInfoByPath file_path # cs))"
proof -
  have unchanged: "open_files (fst (OpenFile h ro s file_path)) = open_files s"
    using assms
    by (auto simp: OpenFile_def Let_def OnOpenFileFinished_def split: option.splits if_splits)
  have "\<exists>cs. fst (snd (OpenFile h' ro' s' file_path)) = MetadataGetEntryInfoByPath file_path # cs"
    if "file_path \<notin> open_files s'" for h' ro' s'
    using that by (simp add: OpenFile_def Let_def split: option.splits prod.splits)
  with unchanged show ?thesis by simp
qed

theorem OpenFile_failed_witness:
  "snd (snd (OpenFile sample_helpers
               (sample_open_replies\<lparr>r_mark_dirty := DRIVE_FILE_ERROR_FAILED\<rparr>)
               DriveFileSystem_new ''drive/a.txt''))
     = Some (DRIVE_FILE_ERROR_FAILED, [])
   \<and> ''drive/a.txt'' \<notin> open_files DriveFileSystem_new
   \<and> open_files (fst (OpenFile sample_helpers
                          (sample_open_replies\<lparr>r_mark_dirty := DRIVE_FILE_ERROR_FAILED\<rparr>)
                          DriveFileSystem_new ''drive/a.txt''))
       = open_files DriveFileSystem_new
   \<and> ''drive/a.txt'' \<notin> open_files (fst (OpenFile sample_helpers
                          (sample_open_replies\<lparr>r_mark_dirty := DRIVE_FILE_ERROR_FAILED\<rparr>)
                          DriveFileSystem_new ''drive/a.txt''))"
proof -
  have failed: "snd (snd (OpenFile sample_helpers
               (sample_open_replies\<lparr>r_mark_dirty := DRIVE_FILE_ERROR_FAILED\<rparr>)
               DriveFileSystem_new ''drive/a.txt''))
     = Some (DRIVE_FILE_ERROR_FAILED, [])"
    by (simp add: OpenFile_def OnGetEntryInfoCompleteForOpenFile_def
        OnGetFileCompleteForOpenFile_def OnMarkDirtyInCacheCompleteForOpenFile_def
        OnOpenFileFinished_def GetResolvedFileByPath_def
        GetResolvedFileByPathAfterGetFileFromCache_def OnCacheFound_def Let_def
        DriveFileSystem_new_def sample_defs sample_open_replies_def)
  have error: "DRIVE_FILE_ERROR_FAILED \<noteq> DRIVE_FILE_OK"
    by simp
  have closed: "''drive/a.txt'' \<notin> open_files DriveFileSystem_new"
    by (simp add: DriveFileSystem_new_def)
  from OpenFile_failed[OF failed error] failed closed show ?thesis
    by simp
qed

subsection \<open>The file pipeline\<close>

text \<open>
  Claim C4: for an entry that is a hosted document, by path, by resource id or
  from the resolved entry. Whenever the result is \<open>DRIVE_FILE_OK\<close>, it is the path
  of the temporary file just created in the directory for temporary documents,
  with the type \<open>application/json\<close> and the kind \<open>HOSTED_DOCUMENT\<close>, whatever
  \<open>content_mime_type\<close> the entry has. When neither the resource id nor the spec of
  the alternate URL holds a NUL character and the text is shorter than \<open>2^31\<close>
  bytes, the text written to that file is
  \<open>{"url": "\<close>, the spec, \<open>", "resource_id": "\<close>, the resource id, \<open>"}\<close>;
  the result is \<open>DRIVE_FILE_OK\<close> when the file is created and the write returns
  the length of the text, and \<open>DRIVE_FILE_ERROR_FAILED\<close> otherwise. In every case
  no call marks, commits or unpins a cache entry.
\<close>

theorem GetFile_hosted_document:
  assumes "has_file_specific_info e"
    and "is_hosted_document (file_specific_info e)"
    and \<open>document_content =
           ''{"url": "'' @ GURL_spec h (alternate_url (file_specific_info e))
           @ ''", "resource_id": "'' @ resource_id e @ ''"}''\<close>
    and "run = GetResolvedFileByPath h r
                 \<lparr>drive_file_path = p, client_context = ctx, entry_proto = e\<rparr>
         \<or> run = GetFileByPath h r p (DRIVE_FILE_OK, Some e)
         \<or> run = GetFileByResourceId h r rid ctx (DRIVE_FILE_OK, p, Some e)"
  shows "(CHR 0x00 \<notin> set (resource_id e)
          \<and> CHR 0x00 \<notin> set (GURL_spec h (alternate_url (file_specific_info e)))
          \<and> length document_content < 2147483648 \<longrightarrow>
            (r_create_document_file r = (True, temp_file_path)
             \<and> r_write_document r = int (length document_content)
             \<longrightarrow> snd run = Some (DRIVE_FILE_OK, temp_file_path, ''application/json'',
                                  HOSTED_DOCUMENT)
               \<and> CreateTemporaryFileInDir (GetCacheDirectoryPath h CACHE_TYPE_TMP_DOCUMENTS)
                   \<in> set (fst run)
               \<and> WriteFile temp_file_path document_content (int (length document_content))
                   \<in> set (fst run))
          \<and> (\<not> fst (r_create_document_file r)
             \<or> r_write_document r \<noteq> int (length document_content)
             \<longrightarrow> snd run = Some (DRIVE_FILE_ERROR_FAILED, [], [], REGULAR_FILE))
          \<and> (\<forall>local mime kind. snd run = Some (DRIVE_FILE_OK, local, mime, kind)
             \<longrightarrow> WriteFile local document_content (int (length document_content))
                   \<in> set (fst run)))
       \<and> (\<forall>local mime kind. snd run = Some (DRIVE_FILE_OK, local, mime, kind)
          \<longrightarrow> local = snd (r_create_document_file r)
            \<and> mime = ''application/json'' \<and> kind = HOSTED_DOCUMENT
            \<and> CreateTemporaryFileInDir (GetCacheDirectoryPath h CACHE_TYPE_TMP_DOCUMENTS)
                \<in> set (fst run))
       \<and> (\<forall>c \<in> set (fst run). \<not> is_dirty_pin_call c)"
proof -
  let ?dc = "document_content_of (GURL_spec h (alternate_url (file_specific_info e)))
               (resource_id e)"
  let ?sz = "static_cast_int (length ?dc)"
  have resolved: "GetResolvedFileByPath h r
        \<lparr>drive_file_path = p, client_context = ctx', entry_proto = e\<rparr> =
      (if r_write_document r = ?sz \<and> fst (r_create_document_file r)
       then ([CreateTemporaryFileInDir (GetCacheDirectoryPath h CACHE_TYPE_TMP_DOCUMENTS),
              WriteFile (snd (r_create_document_file r)) ?dc ?sz],
             Some (DRIVE_FILE_OK, snd (r_create_document_file r), ''application/json'',
                   HOSTED_DOCUMENT))
       else (if fst (r_create_document_file r)
             then [CreateTemporaryFileInDir (GetCacheDirectoryPath h CACHE_TYPE_TMP_DOCUMENTS),
                   WriteFile (snd (r_create_document_file r)) ?dc ?sz]
             else [CreateTemporaryFileInDir (GetCacheDirectoryPath h CACHE_TYPE_TMP_DOCUMENTS)],
             Some (DRIVE_FILE_ERROR_FAILED, [], [], REGULAR_FILE)))" for ctx'
    using assms(1,2)
    by (simp add: GetResolvedFileByPath_hosted CreateDocumentJsonFileOnBlockingPool_def
        Let_def OnError_def kMimeTypeJson_def)
  show ?thesis
  proof (cases "CHR 0x00 \<notin> set (resource_id e)
          \<and> CHR 0x00 \<notin> set (GURL_spec h (alternate_url (file_specific_info e)))
          \<and> length document_content < 2147483648")
    case True
    then have dc: "?dc = document_content"
      using assms(3) by (simp add: document_content_of_def c_str_no_NUL)
    from True have sz: "static_cast_int (length document_content) = int (length document_content)"
      by (simp add: static_cast_int_small)
    from assms(4) True show ?thesis
      by (auto simp: GetFileByPath_resolved GetFileByResourceId_resolved resolved dc sz
          split: if_splits)
  next
    case False
    with assms(4) show ?thesis
      by (auto simp: GetFileByPath_resolved GetFileByResourceId_resolved resolved
          split: if_splits)
  qed
qed

theorem GetFile_hosted_document_witness:
  \<open>has_file_specific_info sample_hosted_entry
   \<and> is_hosted_document (file_specific_info sample_hosted_entry)
   \<and> content_mime_type (file_specific_info sample_hosted_entry)
       = ''application/vnd.google-apps.document''
   \<and> resource_id sample_hosted_entry = ''document:1''
   \<and> GURL_spec sample_helpers (alternate_url (file_specific_info sample_hosted_entry))
       = ''https://docs/edit?id=1''
   \<and> snd (GetFileByPath sample_helpers sample_replies ''drive/doc.gdoc''
             (DRIVE_FILE_OK, Some sample_hosted_entry))
       = Some (DRIVE_FILE_OK, ''/cache/tmp/documents/stub'', ''application/json'',
               HOSTED_DOCUMENT)
   \<and> WriteFile ''/cache/tmp/documents/stub''
         ''{"url": "https://docs/edit?id=1", "resource_id": "document:1"}'' 62
       \<in> set (fst (GetFileByPath sample_helpers sample_replies ''drive/doc.gdoc''
                      (DRIVE_FILE_OK, Some sample_hosted_entry)))\<close>
proof -
  let ?content = \<open>''{"url": "https://docs/edit?id=1", "resource_id": "document:1"}''\<close>
  have info: "has_file_specific_info sample_hosted_entry"
    and hosted: "is_hosted_document (file_specific_info sample_hosted_entry)"
    and mime: "content_mime_type (file_specific_info sample_hosted_entry)
                 = ''application/vnd.google-apps.document''"
    and rid: "resource_id sample_hosted_entry = ''document:1''"
    and url: "GURL_spec sample_helpers (alternate_url (file_specific_info sample_hosted_entry))
                = ''https://docs/edit?id=1''"
    by (simp_all add: sample_defs sample_hosted_entry_def)
  have content: \<open>?content =
      ''{"url": "''
      @ GURL_spec sample_helpers (alternate_url (file_specific_info sample_hosted_entry))
      @ ''", "resource_id": "'' @ resource_id sample_hosted_entry @ ''"}''\<close>
    by (simp add: rid url)
  have clean: "CHR 0x00 \<notin> set (resource_id sample_hosted_entry)
      \<and> CHR 0x00 \<notin> set (GURL_spec sample_helpers
                            (alternate_url (file_specific_info sample_hosted_entry)))
      \<and> length ?content < 2147483648"
    by (simp add: rid url)
  have staged: "r_create_document_file sample_replies = (True, ''/cache/tmp/documents/stub'')
      \<and> r_write_document sample_replies = int (length ?content)"
    by (simp add: sample_replies_def)
  from GetFile_hosted_document[OF info hosted content disjI2[OF disjI1[OF refl]],
      where r = sample_replies and p = "''drive/doc.gdoc''"
        and temp_file_path = "''/cache/tmp/documents/stub''"] clean staged
  have "snd (GetFileByPath sample_helpers sample_replies ''drive/doc.gdoc''
               (DRIVE_FILE_OK, Some sample_hosted_entry))
          = Some (DRIVE_FILE_OK, ''/cache/tmp/documents/stub'', ''application/json'',
                  HOSTED_DOCUMENT)
      \<and> WriteFile ''/cache/tmp/documents/stub'' ?content (int (length ?content))
          \<in> set (fst (GetFileByPath sample_helpers sample_replies ''drive/doc.gdoc''
                         (DRIVE_FILE_OK, Some sample_hosted_entry)))"
    by blast
  with info hosted mime rid url show ?thesis
    by simp
qed

text \<open>
  Claim C5: for an entry with file specific info that is not a hosted document,
  when the cache finds the file under the entry's resource id and MD5, the result
  is \<open>DRIVE_FILE_OK\<close> with the path the cache gave and \<open>REGULAR_FILE\<close>, and no call
  of the run reaches the remote service: the scheduler is asked neither for the
  resource entry nor for a download.
\<close>

theorem GetFile_cache_hit:
  assumes "has_file_specific_info e"
    and "\<not> is_hosted_document (file_specific_info e)"
    and "r_get_file_from_cache r = (DRIVE_FILE_OK, cache_file_path)"
    and "run = GetResolvedFileByPath h r
                 \<lparr>drive_file_path = p, client_context = ctx, entry_proto = e\<rparr>
         \<or> run = GetFileByPath h r p (DRIVE_FILE_OK, Some e)
         \<or> run = GetFileByResourceId h r rid ctx (DRIVE_FILE_OK, p, Some e)"
  shows "snd run = Some (DRIVE_FILE_OK, cache_file_path,
                         content_mime_type (file_specific_info e), REGULAR_FILE)
       \<and> CacheGetFile (resource_id e) (file_md5 (file_specific_info e)) \<in> set (fst run)
       \<and> (\<forall>c \<in> set (fst run). \<not> is_remote_call c)"
  using assms
  by (auto simp: GetFileByPath_resolved GetFileByResourceId_resolved
      GetResolvedFileByPath_cache_hit)

theorem GetFile_cache_hit_witness:
  "has_file_specific_info sample_file_entry
   \<and> \<not> is_hosted_document (file_specific_info sample_file_entry)
   \<and> r_get_file_from_cache (r_open_pipeline sample_open_replies) = (DRIVE_FILE_OK, ''/cache/f1'')
   \<and> snd (GetFileByPath sample_helpers (r_open_pipeline sample_open_replies) ''drive/a.txt''
             (DRIVE_FILE_OK, Some sample_file_entry))
       = Some (DRIVE_FILE_OK, ''/cache/f1'', ''text/plain'', REGULAR_FILE)
   \<and> filter is_remote_call
         (fst (GetFileByPath sample_helpers (r_open_pipeline sample_open_replies)
                 ''drive/a.txt'' (DRIVE_FILE_OK, Some sample_file_entry))) = []"
proof -
  have info: "has_file_specific_info sample_file_entry"
    and regular: "\<not> is_hosted_document (file_specific_info sample_file_entry)"
    and hit: "r_get_file_from_cache (r_open_pipeline sample_open_replies)
                = (DRIVE_FILE_OK, ''/cache/f1'')"
    and mime: "content_mime_type (file_specific_info sample_file_entry) = ''text/plain''"
    by (simp_all add: sample_defs sample_open_replies_def)
  from GetFile_cache_hit[OF info regular hit disjI2[OF disjI1[OF refl]],
      where h = sample_helpers and p = "''drive/a.txt''"] info regular hit mime
  show ?thesis
    by (simp add: filter_empty_conv)
qed

text \<open>
  Claim C6: a run that reaches the download, whose download ends with
  \<open>GDATA_CANCELLED\<close>. \<open>GDataToDriveFileError\<close> is a parameter; it is assumed to
  give an error for \<open>GDATA_CANCELLED\<close>, and the callback is run with that error,
  an empty path, an empty type and \<open>REGULAR_FILE\<close>: nothing is stored.
  The calls are those up to the download, the lookup of the cache entry of the
  refreshed entry, and then \<open>Unpin\<close> for that entry exactly when the lookup
  succeeded and the cache entry is pinned.
\<close>

theorem GetFile_download_cancelled:
  assumes "has_file_specific_info (entry_proto params)"
    and "\<not> is_hosted_document (file_specific_info (entry_proto params))"
    and "fst (r_get_file_from_cache r) \<noteq> DRIVE_FILE_OK"
    and "r_get_resource_entry r = (status, Some entry)"
    and "GDataToDriveFileError h status = DRIVE_FILE_OK"
    and "download_url entry \<noteq> []"
    and "r_refresh_entry r = (DRIVE_FILE_OK, refreshed_path, Some refreshed)"
    and "r_free_disk_space r"
    and "r_create_temporary_file r = (True, temp_file)"
    and "r_download_file r = (GDATA_CANCELLED, downloaded)"
    and "GDataToDriveFileError h GDATA_CANCELLED \<noteq> DRIVE_FILE_OK"
    and "r_get_cache_entry_for_cancel r = (success, cache_entry)"
  shows "snd (GetResolvedFileByPath h r params)
           = Some (GDataToDriveFileError h GDATA_CANCELLED, [], [], REGULAR_FILE)
       \<and> fst (GetResolvedFileByPath h r params) =
           [CacheGetFile (resource_id (entry_proto params))
              (file_md5 (file_specific_info (entry_proto params))),
            SchedulerGetResourceEntry (resource_id (entry_proto params)) (client_context params),
            MetadataRefreshEntry (ConvertResourceEntryToDriveEntryProto h entry),
            CacheFreeDiskSpaceIfNeededFor (file_size (file_info refreshed)),
            CreateTemporaryFileInDir (GetCacheDirectoryPath h CACHE_TYPE_TMP_DOWNLOADS),
            SchedulerDownloadFile (drive_file_path params) temp_file (download_url entry)
              (client_context params),
            CacheGetCacheEntry (resource_id refreshed) (file_md5 (file_specific_info refreshed))]
           @ (if success \<and> is_pinned cache_entry
              then [CacheUnpin (resource_id refreshed) (file_md5 (file_specific_info refreshed))]
              else [])"
  using assms
  by (simp add: GetResolvedFileByPath_download AfterDownloadFile_cancelled OnError_def)

theorem GetFile_download_cancelled_witness:
  "GDataToDriveFileError sample_helpers GDATA_CANCELLED \<noteq> DRIVE_FILE_OK
   \<and> GetResolvedFileByPath sample_helpers
        (sample_replies\<lparr>r_download_file := (GDATA_CANCELLED, [])\<rparr>)
        \<lparr>drive_file_path = ''drive/a.txt'',
         client_context = DriveClientContext USER_INITIATED,
         entry_proto = sample_file_entry\<rparr>
      = ([CacheGetFile ''file:1'' ''md5-1'',
          SchedulerGetResourceEntry ''file:1'' (DriveClientContext USER_INITIATED),
          MetadataRefreshEntry sample_refreshed_entry,
          CacheFreeDiskSpaceIfNeededFor 12,
          CreateTemporaryFileInDir ''/cache/tmp/downloads'',
          SchedulerDownloadFile ''drive/a.txt'' ''/cache/tmp/downloads/t1'' ''https://dl/file1''
            (DriveClientContext USER_INITIATED),
          CacheGetCacheEntry ''file:1'' ''md5-2'',
          CacheUnpin ''file:1'' ''md5-2''],
         Some (DRIVE_FILE_ERROR_OTHER 12, [], [], REGULAR_FILE))"
proof -
  let ?r = "sample_replies\<lparr>r_download_file := (GDATA_CANCELLED, [])\<rparr>"
  let ?params = "\<lparr>drive_file_path = ''drive/a.txt'',
         client_context = DriveClientContext USER_INITIATED,
         entry_proto = sample_file_entry\<rparr>"
  have h1: "has_file_specific_info (entry_proto ?params)"
    and h2: "\<not> is_hosted_document (file_specific_info (entry_proto ?params))"
    and h3: "fst (r_get_file_from_cache ?r) \<noteq> DRIVE_FILE_OK"
    and h4: "r_get_resource_entry ?r =
               (GDATA_CODE 200,
                Some \<lparr>entry_resource_id = ''file:1'', download_url = ''https://dl/file1''\<rparr>)"
    and h5: "GDataToDriveFileError sample_helpers (GDATA_CODE 200) = DRIVE_FILE_OK"
    and h6: "download_url \<lparr>entry_resource_id = ''file:1'', download_url = ''https://dl/file1''\<rparr>
               \<noteq> []"
    and h7: "r_refresh_entry ?r = (DRIVE_FILE_OK, ''drive/a.txt'', Some sample_refreshed_entry)"
    and h8: "r_free_disk_space ?r"
    and h9: "r_create_temporary_file ?r = (True, ''/cache/tmp/downloads/t1'')"
    and h10: "r_download_file ?r = (GDATA_CANCELLED, [])"
    and h11: "GDataToDriveFileError sample_helpers GDATA_CANCELLED \<noteq> DRIVE_FILE_OK"
    and h12: "r_get_cache_entry_for_cancel ?r =
               (True, \<lparr>is_present = False, is_pinned = True, is_dirty = False\<rparr>)"
    by (simp_all add: sample_defs)
  have "GetResolvedFileByPath sample_helpers ?r ?params
      = (fst (GetResolvedFileByPath sample_helpers ?r ?params),
         snd (GetResolvedFileByPath sample_helpers ?r ?params))"
    by simp
  also from GetFile_download_cancelled[OF h1 h2 h3 h4 h5 h6 h7 h8 h9 h10 h11 h12]
  have "\<dots> = ([CacheGetFile ''file:1'' ''md5-1'',
          SchedulerGetResourceEntry ''file:1'' (DriveClientContext USER_INITIATED),
          MetadataRefreshEntry sample_refreshed_entry,
          CacheFreeDiskSpaceIfNeededFor 12,
          CreateTemporaryFileInDir ''/cache/tmp/downloads'',
          SchedulerDownloadFile ''drive/a.txt'' ''/cache/tmp/downloads/t1'' ''https://dl/file1''
            (DriveClientContext USER_INITIATED),
          CacheGetCacheEntry ''file:1'' ''md5-2'',
          CacheUnpin ''file:1'' ''md5-2''],
         Some (DRIVE_FILE_ERROR_OTHER 12, [], [], REGULAR_FILE))"
    by (simp add: sample_defs)
  finally show ?thesis using h11 by simp
qed

text \<open>
  Claim C7: a run that reaches the download, whose download status maps to
  \<open>DRIVE_FILE_OK\<close> and whose \<open>Store\<close> in the cache fails: the callback is run with
  the error of \<open>Store\<close>, an empty path, an empty type and \<open>REGULAR_FILE\<close>; the last
  two calls are the \<open>Store\<close> of the downloaded file and the deletion of that file,
  and no observer is told of a changed directory.
\<close>

theorem GetFile_store_failed:
  assumes "has_file_specific_info (entry_proto params)"
    and "\<not> is_hosted_document (file_specific_info (entry_proto params))"
    and "fst (r_get_file_from_cache r) \<noteq> DRIVE_FILE_OK"
    and "r_get_resource_entry r = (status, Some entry)"
    and "GDataToDriveFileError h status = DRIVE_FILE_OK"
    and "download_url entry \<noteq> []"
    and "r_refresh_entry r = (DRIVE_FILE_OK, refreshed_path, Some refreshed)"
    and "r_free_disk_space r"
    and "r_create_temporary_file r = (True, temp_file)"
    and "r_download_file r = (download_status, downloaded)"
    and "GDataToDriveFileError h download_status = DRIVE_FILE_OK"
    and "r_store r \<noteq> DRIVE_FILE_OK"
  shows "snd (GetResolvedFileByPath h r params) = Some (r_store r, [], [], REGULAR_FILE)
       \<and> (\<exists>cs. fst (GetResolvedFileByPath h r params) =
             cs @ [CacheStore (resource_id refreshed) (file_md5 (file_specific_info refreshed))
                     downloaded FILE_OPERATION_MOVE,
                   DeleteFile downloaded False])
       \<and> (\<forall>c \<in> set (fst (GetResolvedFileByPath h r params)).
             \<forall>d. c \<noteq> ObserverOnDirectoryChanged d)"
  using assms
  by (auto simp: GetResolvedFileByPath_download GetResolvedFileByPathAfterDownloadFile_def
      GetResolvedFileByPathAfterStore_def GetResolvedFileByPathAfterGetCacheEntryForCancel_def
      Let_def OnError_def)


theorem GetFile_store_failed_witness:
  "GDataToDriveFileError sample_helpers (GDATA_CODE 200) = DRIVE_FILE_OK
   \<and> r_store (sample_replies\<lparr>r_store := DRIVE_FILE_ERROR_NO_SPACE\<rparr>) \<noteq> DRIVE_FILE_OK
   \<and> snd (GetResolvedFileByPath sample_helpers
             (sample_replies\<lparr>r_store := DRIVE_FILE_ERROR_NO_SPACE\<rparr>)
             \<lparr>drive_file_path = ''drive/a.txt'',
              client_context = DriveClientContext USER_INITIATED,
              entry_proto = sample_file_entry\<rparr>)
       = Some (DRIVE_FILE_ERROR_NO_SPACE, [], [], REGULAR_FILE)
   \<and> (\<exists>cs. fst (GetResolvedFileByPath sample_helpers
                    (sample_replies\<lparr>r_store := DRIVE_FILE_ERROR_NO_SPACE\<rparr>)
                    \<lparr>drive_file_path = ''drive/a.txt'',
                     client_context = DriveClientContext USER_INITIATED,
                     entry_proto = sample_file_entry\<rparr>)
             = cs @ [CacheStore ''file:1'' ''md5-2'' ''/cache/tmp/downloads/t1''
                       FILE_OPERATION_MOVE,
                     DeleteFile ''/cache/tmp/downloads/t1'' False])"
proof -
  let ?r = "sample_replies\<lparr>r_store := DRIVE_FILE_ERROR_NO_SPACE\<rparr>"
  let ?params = "\<lparr>drive_file_path = ''drive/a.txt'',
         client_context = DriveClientContext USER_INITIATED,
         entry_proto = sample_file_entry\<rparr>"
  have h1: "has_file_specific_info (entry_proto ?params)"
    and h2: "\<not> is_hosted_document (file_specific_info (entry_proto ?params))"
    and h3: "fst (r_get_file_from_cache ?r) \<noteq> DRIVE_FILE_OK"
    and h4: "r_get_resource_entry ?r =
               (GDATA_CODE 200,
                Some \<lparr>entry_resource_id = ''file:1'', download_url = ''https://dl/file1''\<rparr>)"
    and h5: "GDataToDriveFileError sample_helpers (GDATA_CODE 200) = DRIVE_FILE_OK"
    and h6: "download_url \<lparr>entry_resource_id = ''file:1'', download_url = ''https://dl/file1''\<rparr>
               \<noteq> []"
    and h7: "r_refresh_entry ?r = (DRIVE_FILE_OK, ''drive/a.txt'', Some sample_refreshed_entry)"
    and h8: "r_free_disk_space ?r"
    and h9: "r_create_temporary_file ?r = (True, ''/cache/tmp/downloads/t1'')"
    and h10: "r_download_file ?r = (GDATA_CODE 200, ''/cache/tmp/downloads/t1'')"
    and h12: "r_store ?r \<noteq> DRIVE_FILE_OK"
    by (simp_all add: sample_defs)
  from GetFile_store_failed[OF h1 h2 h3 h4 h5 h6 h7 h8 h9 h10 h5 h12] h5 h12
  show ?thesis
    by (simp add: sample_defs)
qed

subsection \<open>Entry info and local modifications\<close>

text \<open>
  Claim C9, as the code has it. For an entry with file specific info that is not
  a hosted document, whose cache entry is found and dirty, and for which the cache
  gives the path of the cache file: when the info of that file can be read, the
  entry is returned with its \<open>file_info\<close> replaced by the info of the file; when
  it cannot, the result is \<open>DRIVE_FILE_ERROR_NOT_FOUND\<close> and no entry. The entry is
  returned as stored when it has no file specific info, is a hosted document, its
  cache entry is not found or not dirty, or the cache does not give the path of
  the cache file. \<open>GetEntryInfoByPath\<close> (at the first lookup, or at the second
  after a load) and \<open>GetEntryInfoByResourceId\<close> return what the check returns.
\<close>

theorem GetEntryInfo_local_modification:
  "(has_file_specific_info e \<and> \<not> is_hosted_document (file_specific_info e)
      \<and> fst (r_get_cache_entry rl) \<and> is_dirty (snd (r_get_cache_entry rl))
      \<and> fst (r_get_cache_file rl) = DRIVE_FILE_OK \<longrightarrow>
        (fst (r_get_file_info rl) \<longrightarrow>
           snd (CheckLocalModificationAndRun h rl e) =
             (DRIVE_FILE_OK,
              Some (e\<lparr>file_info :=
                        ConvertPlatformFileInfoToProto h (snd (r_get_file_info rl))\<rparr>)))
      \<and> (\<not> fst (r_get_file_info rl) \<longrightarrow>
           snd (CheckLocalModificationAndRun h rl e) = (DRIVE_FILE_ERROR_NOT_FOUND, None))
      \<and> GetFileInfo (snd (r_get_cache_file rl)) \<in> set (fst (CheckLocalModificationAndRun h rl e)))
   \<and> (\<not> has_file_specific_info e \<or> is_hosted_document (file_specific_info e)
      \<or> \<not> fst (r_get_cache_entry rl) \<or> \<not> is_dirty (snd (r_get_cache_entry rl))
      \<or> fst (r_get_cache_file rl) \<noteq> DRIVE_FILE_OK \<longrightarrow>
        snd (CheckLocalModificationAndRun h rl e) = (DRIVE_FILE_OK, Some e))
   \<and> (r_entry1 rg = (DRIVE_FILE_OK, Some e) \<longrightarrow>
        snd (GetEntryInfoByPath h rg file_path)
          = Some (snd (CheckLocalModificationAndRun h (r_local rg) e)))
   \<and> (fst (r_entry1 rg) \<noteq> DRIVE_FILE_OK \<and> r_load rg = DRIVE_FILE_OK
      \<and> r_entry2 rg = (DRIVE_FILE_OK, Some e) \<longrightarrow>
        snd (GetEntryInfoByPath h rg file_path)
          = Some (snd (CheckLocalModificationAndRun h (r_local rg) e)))
   \<and> snd (GetEntryInfoByResourceId h rl rid (DRIVE_FILE_OK, file_path, Some e))
       = Some (fst (snd (CheckLocalModificationAndRun h rl e)), file_path,
               snd (snd (CheckLocalModificationAndRun h rl e)))"
  by (auto simp: local_modification_defs GetEntryInfoByPath_def
      GetEntryInfoByPathAfterGetEntry1_def GetEntryInfoByPathAfterLoad_def
      GetEntryInfoByPathAfterGetEntry2_def check_entry_def GetEntryInfoByResourceId_def
      GetEntryInfoByResourceIdAfterGetEntry_def split: prod.splits)

theorem GetEntryInfo_local_modification_witness:
  "has_file_specific_info sample_file_entry
   \<and> \<not> is_hosted_document (file_specific_info sample_file_entry)
   \<and> fst (r_get_cache_entry sample_local_replies)
   \<and> is_dirty (snd (r_get_cache_entry sample_local_replies))
   \<and> fst (r_get_cache_file sample_local_replies) = DRIVE_FILE_OK
   \<and> fst (r_get_file_info sample_local_replies)
   \<and> snd (GetEntryInfoByPath sample_helpers sample_entry_info_replies ''drive/a.txt'')
       = Some (DRIVE_FILE_OK,
               Some (sample_file_entry
                 \<lparr>file_info :=
                    \<lparr>file_size = 25, is_directory = False, is_symbolic_link = False,
                     last_modified = 2000, last_accessed = 2000, creation_time = 900\<rparr>\<rparr>))"
proof -
  have hyps: "has_file_specific_info sample_file_entry
      \<and> \<not> is_hosted_document (file_specific_info sample_file_entry)
      \<and> fst (r_get_cache_entry sample_local_replies)
      \<and> is_dirty (snd (r_get_cache_entry sample_local_replies))
      \<and> fst (r_get_cache_file sample_local_replies) = DRIVE_FILE_OK"
    and readable: "fst (r_get_file_info sample_local_replies)"
    and first: "r_entry1 sample_entry_info_replies = (DRIVE_FILE_OK, Some sample_file_entry)"
    and local: "r_local sample_entry_info_replies = sample_local_replies"
    by (simp_all add: sample_defs sample_local_replies_def sample_entry_info_replies_def)
  note inst = GetEntryInfo_local_modification[where h = sample_helpers
      and rl = sample_local_replies and e = sample_file_entry
      and rg = sample_entry_info_replies and file_path = "''drive/a.txt''"]
  from inst hyps readable
  have "snd (CheckLocalModificationAndRun sample_helpers sample_local_replies sample_file_entry)
      = (DRIVE_FILE_OK,
         Some (sample_file_entry
           \<lparr>file_info := ConvertPlatformFileInfoToProto sample_helpers
                            (snd (r_get_file_info sample_local_replies))\<rparr>))"
    by blast
  moreover from inst first local
  have "snd (GetEntryInfoByPath sample_helpers sample_entry_info_replies ''drive/a.txt'')
      = Some (snd (CheckLocalModificationAndRun sample_helpers sample_local_replies
                     sample_file_entry))"
    by simp
  ultimately show ?thesis using hyps readable
    by (simp add: sample_helpers_def sample_local_replies_def)
qed

text \<open>
  The cache entry of a regular file is found and dirty, but the cache does not
  give the path of the cache file: the entry comes back as stored (size 10), the
  info of the local file (size 25) is never read.
\<close>

theorem GetEntryInfo_cache_file_missing_counterexample:
  "has_file_specific_info sample_file_entry
   \<and> \<not> is_hosted_document (file_specific_info sample_file_entry)
   \<and> fst (r_get_cache_entry sample_local_replies)
   \<and> is_dirty (snd (r_get_cache_entry sample_local_replies))
   \<and> GetEntryInfoByPath sample_helpers
        (sample_entry_info_replies
           \<lparr>r_local := sample_local_replies
              \<lparr>r_get_cache_file := (DRIVE_FILE_ERROR_NOT_FOUND, [])\<rparr>\<rparr>)
        ''drive/a.txt''
      = ([MetadataGetEntryInfoByPath ''drive/a.txt'',
          CacheGetCacheEntry ''file:1'' ''md5-1'',
          CacheGetFile ''file:1'' ''md5-1''],
         Some (DRIVE_FILE_OK, Some sample_file_entry))
   \<and> file_size (file_info sample_file_entry) = 10
   \<and> file_size (ConvertPlatformFileInfoToProto sample_helpers
                   (snd (r_get_file_info sample_local_replies))) = 25"
  by (simp add: local_modification_defs GetEntryInfoByPath_def
      GetEntryInfoByPathAfterGetEntry1_def check_entry_def sample_entry_info_replies_def
      sample_local_replies_def sample_file_entry_def sample_helpers_def sample_file_info_def
      has_file_specific_info_def file_specific_info_def)

subsection \<open>The polling interval\<close>

lemma OpenFile_polling:
  "polling_interval_sec (fst (OpenFile h ro s file_path)) = polling_interval_sec s
   \<and> push_notification_enabled (fst (OpenFile h ro s file_path)) = push_notification_enabled s"
  by (simp add: OpenFile_def OnOpenFileFinished_def Let_def split: option.splits prod.splits)

lemma CloseFile_polling:
  "polling_interval_sec (fst (CloseFile s file_path r_entry r_commit)) = polling_interval_sec s
   \<and> push_notification_enabled (fst (CloseFile s file_path r_entry r_commit))
       = push_notification_enabled s"
  by (simp add: CloseFile_def CloseFileFinalize_def Let_def split: option.splits)

lemma reachable_polling_interval:
  "reachable s \<Longrightarrow>
     polling_interval_sec s =
       (if push_notification_enabled s then kSlowPollingIntervalInSec
        else kFastPollingIntervalInSec)"
proof (induction rule: reachable.induct)
  case reachable_new
  show ?case by (simp add: DriveFileSystem_new_def)
next
  case (reachable_StartPolling s)
  then show ?case by (simp add: StartPolling_def)
next
  case (reachable_StopPolling s)
  then show ?case by (simp add: StopPolling_def)
next
  case (reachable_SetPushNotificationEnabled s enabled)
  show ?case by (simp add: SetPushNotificationEnabled_def)
next
  case (reachable_OpenFile s h ro file_path)
  then show ?case by (simp add: OpenFile_polling)
next
  case (reachable_CloseFile s file_path r_entry r_commit)
  then show ?case by (simp add: CloseFile_polling)
qed

text \<open>
  Claim C8, as the code has it: in every reachable state \<open>polling_interval_sec\<close> is
  the slow interval when the push notification flag is enabled and the fast one
  when it is disabled; \<open>SetPushNotificationEnabled\<close> records the flag and that
  interval and leaves the timer as it is; \<open>StartPolling\<close> starts the timer with
  the interval stored at that moment.
\<close>

theorem SetPushNotificationEnabled_interval:
  "(reachable s \<longrightarrow>
      polling_interval_sec s =
        (if push_notification_enabled s then kSlowPollingIntervalInSec
         else kFastPollingIntervalInSec))
   \<and> push_notification_enabled (SetPushNotificationEnabled s enabled) = enabled
   \<and> polling_interval_sec (SetPushNotificationEnabled s enabled)
       = (if enabled then kSlowPollingIntervalInSec else kFastPollingIntervalInSec)
   \<and> update_timer (SetPushNotificationEnabled s enabled) = update_timer s
   \<and> IsRunning (update_timer (StartPolling s)) = True
   \<and> delay (update_timer (StartPolling s)) = polling_interval_sec s"
  by (simp add: reachable_polling_interval SetPushNotificationEnabled_def StartPolling_def
      Timer_Start_def)

theorem SetPushNotificationEnabled_interval_witness:
  "reachable (SetPushNotificationEnabled (StartPolling DriveFileSystem_new) True)
   \<and> polling_interval_sec (SetPushNotificationEnabled (StartPolling DriveFileSystem_new) True)
       = 300"
proof -
  have "StartPolling_DCHECK DriveFileSystem_new"
    by (simp add: StartPolling_DCHECK_def DriveFileSystem_new_def)
  then have reach: "reachable (SetPushNotificationEnabled (StartPolling DriveFileSystem_new) True)"
    by (intro reachable.intros)
  from SetPushNotificationEnabled_interval[
      where s = "SetPushNotificationEnabled (StartPolling DriveFileSystem_new) True"] reach
  have "polling_interval_sec (SetPushNotificationEnabled (StartPolling DriveFileSystem_new) True)
      = (if push_notification_enabled
              (SetPushNotificationEnabled (StartPolling DriveFileSystem_new) True)
         then kSlowPollingIntervalInSec else kFastPollingIntervalInSec)"
    by blast
  with reach show ?thesis
    by (simp add: SetPushNotificationEnabled_def kSlowPollingIntervalInSec_def)
qed

text \<open>
  Polling is started on a new file system and the flag is then enabled: the timer
  runs and still fires every 60 seconds, while the slow interval is 300.
\<close>

theorem SetPushNotificationEnabled_running_timer_counterexample:
  "StartPolling_DCHECK DriveFileSystem_new
   \<and> IsRunning (update_timer (SetPushNotificationEnabled (StartPolling DriveFileSystem_new) True))
   \<and> push_notification_enabled (SetPushNotificationEnabled (StartPolling DriveFileSystem_new) True)
   \<and> delay (update_timer (SetPushNotificationEnabled (StartPolling DriveFileSystem_new) True)) = 60
   \<and> kSlowPollingIntervalInSec = 300"
  by (simp add: SetPushNotificationEnabled_def DriveFileSystem_new_def StartPolling_def
      Timer_Start_def StartPolling_DCHECK_def kFastPollingIntervalInSec_def
      kSlowPollingIntervalInSec_def)

end
